theory Spec2Isabelle
  imports Complex_Main "HOL-Library.Word"
begin

unbundle bit_operations_syntax

text \<open>
  The proximity engine of the bus transport server: the route cache with its time to live,
  the rate limit of availability checks, the debounced rebuild of the route polylines, the
  polyline decoder, the builder of route paths, the test whether a path meets the search
  circle, and forward and reverse geocoding with their caches and their daily budget. Each
  function of \<open>server.js\<close> and \<open>routeCacheManager.js\<close> is a function here of the same
  name; module state is passed in and returned, time and the answers of the outside services
  are parameters, and a thrown error is a value.
\<close>

section \<open>Strings\<close>

text \<open>
  JavaScript strings are modelled as \<open>string\<close>; the case conversions and \<open>trim\<close> are the
  ASCII fragments of \<open>String.prototype.toLowerCase\<close>, \<open>toUpperCase\<close> and \<open>trim\<close>.
\<close>

definition lower_char :: "char \<Rightarrow> char" where
  "lower_char c =
     (let n = of_char c :: nat in if 65 \<le> n \<and> n \<le> 90 then char_of (n + 32) else c)"


definition toLowerCase :: "string \<Rightarrow> string" where
  "toLowerCase s = map lower_char s"


definition is_space :: "char \<Rightarrow> bool" where
  "is_space c = ((of_char c :: nat) \<in> {9, 10, 11, 12, 13, 32})"

definition trim :: "string \<Rightarrow> string" where
  "trim s = rev (dropWhile is_space (rev (dropWhile is_space s)))"

section \<open>routeCacheManager.js: the persisted route cache\<close>

text \<open>
  A row of the \<open>RouteCache\<close> table: the stored route and the time of its last write, in
  milliseconds since the epoch (\<open>updatedAt.getTime()\<close>).
\<close>

record 'r route_cache_row =
  routeData :: 'r
  updatedAt :: int

text \<open>
  The database as the cache manager sees it: the table keyed by \<open>(busId, period)\<close>, and
  whether the query can be answered at all (a rejected promise lands in the \<open>catch\<close>).
\<close>

record 'r database =
  reachable :: bool
  routeCache :: "(int \<times> string) \<rightharpoonup> 'r route_cache_row"



definition ROUTE_CACHE_REFRESH_HOURS :: int where
  "ROUTE_CACHE_REFRESH_HOURS = 2"


text \<open>The rows that \<open>clearExpiredCache\<close> deletes: \<open>updatedAt < now - 2h\<close>.\<close>

definition clearExpiredCache :: "'r database \<Rightarrow> int \<Rightarrow> 'r database" where
  "clearExpiredCache db now =
     (if reachable db
      then db\<lparr>routeCache := (\<lambda>k. case routeCache db k of
               None \<Rightarrow> None
             | Some row \<Rightarrow>
                 if updatedAt row < now - ROUTE_CACHE_REFRESH_HOURS * 60 * 60 * 1000
                 then None else Some row)\<rparr>
      else db)"


section \<open>server.js: the daily budget of Google Maps calls\<close>

text \<open>
  \<open>googleUsage\<close>: the day the counter belongs to (\<open>YYYY-MM-DD\<close>), the calls counted on
  that day, and the daily limit. \<open>today\<close> is the date the clock shows at the call.
\<close>

record google_usage =
  date :: string
  count :: int
  limit :: int

definition checkAndIncrementGoogleUsage :: "string \<Rightarrow> google_usage \<Rightarrow> bool \<times> google_usage" where
  "checkAndIncrementGoogleUsage today googleUsage =
     (let googleUsage = (if date googleUsage \<noteq> today
                         then googleUsage\<lparr>date := today, google_usage.count := 0\<rparr> else googleUsage)
      in if google_usage.count googleUsage \<ge> limit googleUsage then (False, googleUsage)
         else (True, googleUsage\<lparr>google_usage.count := google_usage.count googleUsage + 1\<rparr>))"

section \<open>server.js: rate limiting of availability checks\<close>

record rate_counter =
  count :: int
  windowStart :: int

record limiter =
  availabilityCounters :: "string \<rightharpoonup> rate_counter"
  availabilityContactCounters :: "string \<rightharpoonup> rate_counter"

record limits =
  AVAILABILITY_LIMIT_PER_HOUR :: int
  AVAILABILITY_LIMIT_PER_CONTACT_PER_HOUR :: int

definition default_limits :: limits where
  "default_limits = \<lparr>AVAILABILITY_LIMIT_PER_HOUR = 200, AVAILABILITY_LIMIT_PER_CONTACT_PER_HOUR = 60\<rparr>"

definition no_history :: limiter where
  "no_history = \<lparr>availabilityCounters = Map.empty, availabilityContactCounters = Map.empty\<rparr>"

text \<open>\<open>if (contact)\<close>: a contact key is used when it is neither null nor the empty string.\<close>

fun truthy :: "string option \<Rightarrow> bool" where
  "truthy None = False"
| "truthy (Some s) = (s \<noteq> [])"

text \<open>
  The body shared by the two counters of \<open>incrementAvailability\<close>: fetch or create the
  counter, restart the window when it is older than an hour, count the request.
\<close>

definition bump :: "int \<Rightarrow> rate_counter option \<Rightarrow> rate_counter" where
  "bump now stored =
     (let hourWindow = 60 * 60 * 1000;
          obj = (case stored of None \<Rightarrow> \<lparr>count = 0, windowStart = now\<rparr> | Some c \<Rightarrow> c);
          obj = (if now - windowStart obj > hourWindow then \<lparr>count = 0, windowStart = now\<rparr> else obj)
      in obj\<lparr>count := count obj + 1\<rparr>)"

definition incrementAvailability :: "int \<Rightarrow> string \<Rightarrow> string option \<Rightarrow> limiter \<Rightarrow> limiter" where
  "incrementAvailability now ip contact st =
     (let st = st\<lparr>availabilityCounters :=
                 (availabilityCounters st)(ip \<mapsto> bump now (availabilityCounters st ip))\<rparr>
      in if truthy contact
         then st\<lparr>availabilityContactCounters :=
                 (availabilityContactCounters st)(the contact \<mapsto>
                    bump now (availabilityContactCounters st (the contact)))\<rparr>
         else st)"

definition stored_count :: "rate_counter option \<Rightarrow> int" where
  "stored_count stored = (case stored of None \<Rightarrow> 0 | Some c \<Rightarrow> count c)"

definition isAvailabilityAllowed :: "limits \<Rightarrow> limiter \<Rightarrow> string \<Rightarrow> string option \<Rightarrow> bool" where
  "isAvailabilityAllowed cfg st ip contact =
     (if stored_count (availabilityCounters st ip) \<ge> AVAILABILITY_LIMIT_PER_HOUR cfg then False
      else if truthy contact \<and>
              stored_count (availabilityContactCounters st (the contact))
                \<ge> AVAILABILITY_LIMIT_PER_CONTACT_PER_HOUR cfg then False
      else True)"

text \<open>
  The head of the \<open>/api/check-availability\<close> handler: the gate, then the validation of
  the payload (\<open>payload_ok\<close>: a location is present and the contact is an e-mail address
  or a phone number), then the increment.
\<close>

datatype gate = TooManyRequests | BadRequest | Accepted

definition check_availability ::
  "limits \<Rightarrow> string \<Rightarrow> string option \<Rightarrow> bool \<Rightarrow> int \<Rightarrow> limiter \<Rightarrow> gate \<times> limiter" where
  "check_availability cfg ip contact payload_ok now st =
     (let contactKey = (if truthy contact then map_option toLowerCase contact else None)
      in if isAvailabilityAllowed cfg st ip contactKey
         then (if truthy contact \<and> payload_ok
               then (Accepted, incrementAvailability now ip contactKey st)
               else (BadRequest, st))
         else (TooManyRequests, st))"

text \<open>A client sending well-formed checks at the listed times, in order.\<close>

fun checks :: "limits \<Rightarrow> string \<Rightarrow> string \<Rightarrow> int list \<Rightarrow> limiter \<Rightarrow> gate list \<times> limiter" where
  "checks cfg ip contact [] st = ([], st)"
| "checks cfg ip contact (t # ts) st =
     (let (g, st1) = check_availability cfg ip (Some contact) True t st;
          (gs, st2) = checks cfg ip contact ts st1
      in (g # gs, st2))"

text \<open>A counter that holds \<open>k\<close> requests and whose window covers all the times \<open>ts\<close>.\<close>

definition fresh :: "rate_counter option \<Rightarrow> int \<Rightarrow> int list \<Rightarrow> bool" where
  "fresh stored k ts =
     (case stored of None \<Rightarrow> k = 0
      | Some c \<Rightarrow> count c = k \<and> (\<forall>t\<in>set ts. t - windowStart c \<le> 3600000))"


section \<open>server.js: the debounced rebuild of the route cache\<close>

text \<open>
  The scheduler's state: \<open>_lastRouteBuildTs\<close>, the pending timeout \<open>_routeRebuildTimer\<close>
  (the time at which it is due, \<open>None\<close> for \<open>null\<close>), and the log of the times at which
  the timer's callback started \<open>buildAllRoutePolylines\<close>.
\<close>

record scheduler =
  lastRouteBuildTs :: int
  routeRebuildTimer :: "int option"
  builds :: "int list"

text \<open>
  \<open>setTimeout\<close> of Node, which is not part of the repository: a delay below 1 ms or above
  \<open>TIMEOUT_MAX\<close> (2147483647 ms) is set to 1 ms.
\<close>

definition TIMEOUT_MAX :: int where
  "TIMEOUT_MAX = 2147483647"

definition setTimeout_delay :: "int \<Rightarrow> int" where
  "setTimeout_delay delay = (if 1 \<le> delay \<and> delay \<le> TIMEOUT_MAX then delay else 1)"

text \<open>
  \<open>clearTimeout\<close> followed by \<open>setTimeout(callback, delay)\<close>: the one pending timer is
  replaced by a timer due after the delay \<open>setTimeout\<close> makes of \<open>delay\<close>.
\<close>

definition scheduleRouteCacheRebuild :: "int \<Rightarrow> int \<Rightarrow> bool \<Rightarrow> scheduler \<Rightarrow> scheduler" where
  "scheduleRouteCacheRebuild ROUTE_BUILD_COOLDOWN_MS now immediate s =
     (let since = now - lastRouteBuildTs s;
          delay = (if immediate then 0 else max 0 (ROUTE_BUILD_COOLDOWN_MS - since))
      in s\<lparr>routeRebuildTimer := Some (now + setTimeout_delay delay)\<rparr>)"

text \<open>The timer's callback, run at time \<open>now\<close>.\<close>

definition rebuild_callback :: "int \<Rightarrow> scheduler \<Rightarrow> scheduler" where
  "rebuild_callback now s =
     s\<lparr>routeRebuildTimer := None, lastRouteBuildTs := now, builds := builds s @ [now]\<rparr>"

text \<open>
  The event loop between two ticks, up to time \<open>t\<close>: a pending timer that is due by then
  runs its callback, at the time it is due. A callback never runs inside a tick.
\<close>

definition event_loop :: "int \<Rightarrow> scheduler \<Rightarrow> scheduler" where
  "event_loop t s =
     (case routeRebuildTimer s of
        None \<Rightarrow> s
      | Some due \<Rightarrow> if due \<le> t then rebuild_callback due s else s)"

text \<open>
  A tick: the rebuild signals \<open>(now, immediate)\<close> raised by one run of synchronous code, in
  order. A run of the server: its ticks in order, the event loop running before each from
  the time the tick starts. After the last tick the pending timer fires (\<open>settle\<close>).
\<close>

fun tick :: "int \<Rightarrow> (int \<times> bool) list \<Rightarrow> scheduler \<Rightarrow> scheduler" where
  "tick cooldown [] s = s"
| "tick cooldown ((now, immediate) # others) s =
     tick cooldown others (scheduleRouteCacheRebuild cooldown now immediate s)"

fun ticks :: "int \<Rightarrow> (int \<times> bool) list list \<Rightarrow> scheduler \<Rightarrow> scheduler" where
  "ticks cooldown [] s = s"
| "ticks cooldown ([] # later) s = ticks cooldown later s"
| "ticks cooldown (((now, immediate) # others) # later) s =
     ticks cooldown later (tick cooldown ((now, immediate) # others) (event_loop now s))"

definition settle :: "scheduler \<Rightarrow> scheduler" where
  "settle s =
     (case routeRebuildTimer s of
        None \<Rightarrow> s
      | Some due \<Rightarrow> rebuild_callback due s)"

definition idle_since :: "int \<Rightarrow> scheduler" where
  "idle_since t0 = \<lparr>lastRouteBuildTs = t0, routeRebuildTimer = None, builds = []\<rparr>"





section \<open>server.js: coordinates and the polyline decoder\<close>

text \<open>A JavaScript number as the geometry code uses it: a real, or \<open>NaN\<close>.\<close>

datatype number = Number real | NaN

text \<open>An object \<open>{lat, lng}\<close>.\<close>

record 'a latlng =
  lat :: 'a
  lng :: 'a

type_synonym point = "number latlng"

text \<open>
  The bitwise operators of JavaScript work on 32-bit two's complement integers: the operands
  are wrapped by \<open>ToInt32\<close>, and a shift count is taken modulo 32.
\<close>

definition toInt32 :: "int \<Rightarrow> int" where
  "toInt32 x = signed_take_bit 31 x"

definition js_and :: "int \<Rightarrow> int \<Rightarrow> int" where
  "js_and a b = toInt32 a AND toInt32 b"

definition js_or :: "int \<Rightarrow> int \<Rightarrow> int" where
  "js_or a b = toInt32 a OR toInt32 b"

definition js_shl :: "int \<Rightarrow> int \<Rightarrow> int" where
  "js_shl a s = toInt32 (push_bit (nat (s mod 32)) (toInt32 a))"

definition js_sar :: "int \<Rightarrow> int \<Rightarrow> int" where
  "js_sar a s = drop_bit (nat (s mod 32)) (toInt32 a)"

definition js_not :: "int \<Rightarrow> int" where
  "js_not a = NOT (toInt32 a)"

text \<open>
  One \<open>do ... while (b >= 0x20)\<close> loop of \<open>decodePolyline\<close>, reading from the rest of the
  string; it returns \<open>result\<close> and what is left of the string. Past the end of the string
  \<open>charCodeAt\<close> is \<open>NaN\<close>: \<open>NaN & 0x1f\<close> is 0 and \<open>NaN >= 0x20\<close> is false, so the loop
  stops there.
\<close>

fun decode_value :: "string \<Rightarrow> int \<Rightarrow> int \<Rightarrow> int \<times> string" where
  "decode_value [] shift result = (js_or result (js_shl 0 shift), [])"
| "decode_value (c # cs) shift result =
     (let b = of_char c - 63;
          result = js_or result (js_shl (js_and b 31) shift)
      in if b \<ge> 32 then decode_value cs (shift + 5) result else (result, cs))"

text \<open>\<open>(result & 1) ? ~(result >> 1) : (result >> 1)\<close>\<close>

definition delta_of :: "int \<Rightarrow> int" where
  "delta_of result = (if js_and result 1 \<noteq> 0 then js_not (js_sar result 1) else js_sar result 1)"

text \<open>
  The outer loop of \<open>decodePolyline\<close> from the current index, with the running \<open>lat\<close>
  and \<open>lng\<close> (integers, in units of \<open>1e-5\<close> degree); the points it pushes, in order.
  The product with \<open>1e-5\<close> is taken in the reals. Characters are bytes.
\<close>

function decode_from :: "string \<Rightarrow> int \<Rightarrow> int \<Rightarrow> point list" where
  "decode_from encoded latE5 lngE5 =
     (if encoded = [] then []
      else
        (let (result, rest) = decode_value encoded 0 0;
             latE5 = latE5 + delta_of result;
             (result, rest) = decode_value rest 0 0;
             lngE5 = lngE5 + delta_of result
         in \<lparr>lat = Number (real_of_int latE5 * (1 / 100000)),
              lng = Number (real_of_int lngE5 * (1 / 100000))\<rparr> # decode_from rest latE5 lngE5))"
  by pat_completeness auto
termination
proof (relation "measure (\<lambda>(encoded, latE5, lngE5). length encoded)", goal_cases)
  case 1
  show ?case by simp
next
  case (2 encoded latE5 lngE5 x result rest latE5' y result' rest')
  have le: "length (snd (decode_value cs shift r)) \<le> length cs" for cs shift r
    by (induction cs arbitrary: shift r) (auto simp: Let_def le_SucI)
  have "length (snd (decode_value encoded 0 0)) < length encoded"
  proof (cases encoded)
    case Nil
    with 2 show ?thesis by simp
  next
    case (Cons c cs)
    then show ?thesis by (simp add: Let_def le_imp_less_Suc [OF le])
  qed
  moreover have "rest = snd (decode_value encoded 0 0)"
    using 2 by (metis snd_conv)
  moreover have "rest' = snd (decode_value rest 0 0)"
    using 2 by (metis snd_conv)
  ultimately show ?case
    using le [of rest 0 0] by simp
qed

declare decode_from.simps [simp del]

definition decodePolyline :: "string option \<Rightarrow> point list" where
  "decodePolyline encoded =
     (case encoded of None \<Rightarrow> [] | Some s \<Rightarrow> if s = [] then [] else decode_from s 0 0)"

text \<open>
  The encoding, as the interface description words it: the coordinates are taken in
  units of \<open>1e-5\<close> degree, each delta is zig-zag encoded and emitted in groups of five
  bits, lowest first, as the characters with code \<open>group + 63\<close>, with the continuation bit
  \<open>0x20\<close> set on all but the last group.
\<close>

definition zigzag :: "int \<Rightarrow> nat" where
  "zigzag v = (if v < 0 then nat (- 2 * v - 1) else nat (2 * v))"

fun groups :: "nat \<Rightarrow> string" where
  "groups n =
     (if n < 32 then [char_of (n + 63)]
      else char_of ((n mod 32 + 32) + 63) # groups (n div 32))"

declare groups.simps [simp del]

definition encode_value :: "int \<Rightarrow> string" where
  "encode_value v = groups (zigzag v)"

fun encode_from :: "int \<Rightarrow> int \<Rightarrow> (int \<times> int) list \<Rightarrow> string" where
  "encode_from prevLat prevLng [] = []"
| "encode_from prevLat prevLng ((la, lo) # ps) =
     encode_value (la - prevLat) @ encode_value (lo - prevLng) @ encode_from la lo ps"

definition encodePolyline :: "(int \<times> int) list \<Rightarrow> string" where
  "encodePolyline ps = encode_from 0 0 ps"

definition degrees :: "int \<times> int \<Rightarrow> point" where
  "degrees p = \<lparr>lat = Number (real_of_int (fst p) * (1 / 100000)),
               lng = Number (real_of_int (snd p) * (1 / 100000))\<rparr>"

text \<open>Coordinates of a location, in units of \<open>1e-5\<close> degree.\<close>

definition location_e5 :: "int \<times> int \<Rightarrow> bool" where
  "location_e5 p = (\<bar>fst p\<bar> \<le> 9000000 \<and> \<bar>snd p\<bar> \<le> 18000000)"


section \<open>server.js: building the path of a route\<close>

datatype period = MORNING | EVENING

record stop = "real latlng" +
  name :: string
  period :: period
  order :: int

text \<open>\<open>{ lat: +p.lat, lng: +p.lng }\<close>\<close>

definition point_of :: "(real, 'a) latlng_scheme \<Rightarrow> point" where
  "point_of p = \<lparr>lat = Number (lat p), lng = Number (lng p)\<rparr>"

definition coords :: "(real, 'a) latlng_scheme \<Rightarrow> real latlng" where
  "coords p = \<lparr>lat = lat p, lng = lng p\<rparr>"

text \<open>
  The answer of the Directions request: the \<open>error\<close> event, a body that does not parse, or
  a parsed body with its \<open>status\<close> and, when \<open>routes[0].overview_polyline\<close> is present, its
  \<open>points\<close> (\<open>None\<close> when that field is missing).
\<close>

datatype directions_reply =
  ConnectionError
| InvalidJson
| Directions string "string option option"

type_synonym directions_api = "real latlng \<Rightarrow> real latlng \<Rightarrow> real latlng list \<Rightarrow> directions_reply"

definition straight_line :: "real latlng \<Rightarrow> real latlng list \<Rightarrow> real latlng \<Rightarrow> point list" where
  "straight_line o' wpList d = map point_of ([o'] @ wpList @ [d])"

definition getRoutePath ::
  "string option \<Rightarrow> directions_api \<Rightarrow> string \<Rightarrow> real latlng \<Rightarrow> real latlng \<Rightarrow> real latlng list
     \<Rightarrow> google_usage \<Rightarrow> point list \<times> google_usage" where
  "getRoutePath GOOGLE_MAPS_KEY directions today origin destination waypoints googleUsage =
     (if GOOGLE_MAPS_KEY = None then (straight_line origin waypoints destination, googleUsage)
      else
        (case checkAndIncrementGoogleUsage today googleUsage of
           (False, googleUsage) \<Rightarrow> (straight_line origin waypoints destination, googleUsage)
         | (True, googleUsage) \<Rightarrow>
             (case directions origin destination waypoints of
                Directions status (Some points) \<Rightarrow>
                  if status = ''OK'' then (decodePolyline points, googleUsage)
                  else (straight_line origin waypoints destination, googleUsage)
              | _ \<Rightarrow> (straight_line origin waypoints destination, googleUsage))))"

text \<open>
  \<open>buildForStops\<close> of \<open>buildRouteForBus\<close>. \<open>getRoutePath\<close> never rejects, so the \<open>catch\<close>
  around it is not reached.
\<close>

definition buildForStops ::
  "string option \<Rightarrow> directions_api \<Rightarrow> string \<Rightarrow> stop list \<Rightarrow> google_usage \<Rightarrow> point list \<times> google_usage" where
  "buildForStops GOOGLE_MAPS_KEY directions today stopsArr googleUsage =
     (if length stopsArr = 0 then ([], googleUsage)
      else if length stopsArr = 1 then ([point_of (stopsArr ! 0)], googleUsage)
      else
        (let origin = coords (stopsArr ! 0);
             destination = coords (stopsArr ! (length stopsArr - 1));
             waypoints = map coords (butlast (tl stopsArr))
         in getRoutePath GOOGLE_MAPS_KEY directions today origin destination waypoints googleUsage))"

record routes =
  morningRoute :: "point list"
  eveningRoute :: "point list"

definition buildRouteForBus ::
  "string option \<Rightarrow> directions_api \<Rightarrow> string \<Rightarrow> stop list \<Rightarrow> google_usage \<Rightarrow> routes \<times> google_usage" where
  "buildRouteForBus GOOGLE_MAPS_KEY directions today stops googleUsage =
     (let morningStops = sort_key order (filter (\<lambda>s. period s = MORNING) stops);
          eveningStops = sort_key order (filter (\<lambda>s. period s = EVENING) stops);
          (morning, googleUsage) = buildForStops GOOGLE_MAPS_KEY directions today morningStops googleUsage;
          (evening, googleUsage) = buildForStops GOOGLE_MAPS_KEY directions today eveningStops googleUsage
      in (\<lparr>morningRoute = morning, eveningRoute = evening\<rparr>, googleUsage))"

text \<open>The Directions request cannot be used: it fails, or its answer carries no route.\<close>

definition no_route :: "directions_reply \<Rightarrow> bool" where
  "no_route reply =
     (case reply of
        Directions status (Some points) \<Rightarrow> status \<noteq> ''OK''
      | _ \<Rightarrow> True)"

definition stop_at :: "real \<Rightarrow> real \<Rightarrow> period \<Rightarrow> int \<Rightarrow> stop" where
  "stop_at la lo p i = \<lparr>lat = la, lng = lo, name = [], period = p, order = i\<rparr>"

section \<open>server.js: does a path meet the search circle?\<close>

text \<open>
  \<open>getDistance\<close> comes from the geolib package, which is not part of the repository: it
  is a parameter here, any function from two \<open>{latitude, longitude}\<close> pairs to a distance
  in metres.
\<close>

type_synonym geolib = "real \<times> real \<Rightarrow> real \<times> real \<Rightarrow> real"

text \<open>
  The loop of \<open>isPathIntersectsCircle\<close> over the rest of the path. The \<open>lat\<close> and
  \<open>lng\<close> of an entry stand for \<open>Number(p.lat)\<close> and \<open>Number(p.lng)\<close>, so \<open>NaN\<close> is
  what \<open>Number.isNaN\<close> tests. The \<open>minDist\<close> and \<open>minIndex\<close> of this loop are only
  written to the debug log.
\<close>

fun intersects_loop :: "geolib \<Rightarrow> real \<times> real \<Rightarrow> real \<Rightarrow> point list \<Rightarrow> bool" where
  "intersects_loop getDistance center radiusMeters [] = False"
| "intersects_loop getDistance center radiusMeters (p # path) =
     (case (lat p, lng p) of
        (Number la, Number lo) \<Rightarrow>
          (let d = getDistance (la, lo) center
           in if d \<le> radiusMeters then True
              else intersects_loop getDistance center radiusMeters path)
      | _ \<Rightarrow> intersects_loop getDistance center radiusMeters path)"

definition isPathIntersectsCircle ::
  "geolib \<Rightarrow> real latlng \<Rightarrow> point list option \<Rightarrow> real \<Rightarrow> bool" where
  "isPathIntersectsCircle getDistance userLocation path radiusMeters =
     (case path of
        None \<Rightarrow> False
      | Some ps \<Rightarrow>
          if length ps = 0 then False
          else intersects_loop getDistance (lat userLocation, lng userLocation) radiusMeters ps)"

text \<open>
  The loop of \<open>getMinDistanceAlongPath\<close> from index \<open>i\<close>; \<open>minDist\<close> is \<open>None\<close> while it
  is \<open>Infinity\<close>.
\<close>

fun min_loop :: "geolib \<Rightarrow> real \<times> real \<Rightarrow> point list \<Rightarrow> int \<Rightarrow> real option \<times> int \<Rightarrow> real option \<times> int" where
  "min_loop getDistance center [] i (minDist, minIndex) = (minDist, minIndex)"
| "min_loop getDistance center (p # path) i (minDist, minIndex) =
     (case (lat p, lng p) of
        (Number la, Number lo) \<Rightarrow>
          (let d = getDistance (la, lo) center
           in if (case minDist of None \<Rightarrow> True | Some m \<Rightarrow> d < m)
              then min_loop getDistance center path (i + 1) (Some d, i)
              else min_loop getDistance center path (i + 1) (minDist, minIndex))
      | _ \<Rightarrow> min_loop getDistance center path (i + 1) (minDist, minIndex))"

definition getMinDistanceAlongPath ::
  "geolib \<Rightarrow> real latlng \<Rightarrow> point list option \<Rightarrow> real option \<times> int" where
  "getMinDistanceAlongPath getDistance userLocation path =
     (case path of
        None \<Rightarrow> (None, - 1)
      | Some ps \<Rightarrow> min_loop getDistance (lat userLocation, lng userLocation) ps 0 (None, - 1))"

text \<open>\<open>routePolylinesCache.get(b.id)\<close>: the cached routes of a bus, each possibly missing.\<close>

record cached_routes =
  cachedMorningRoute :: "point list option"
  cachedEveningRoute :: "point list option"

record check_result =
  intersects :: bool
  stopCount :: nat
  routePath :: "point list"

definition stops_within :: "geolib \<Rightarrow> real latlng \<Rightarrow> real \<Rightarrow> stop list \<Rightarrow> nat" where
  "stops_within getDistance userLocation radiusMeters stopsArr =
     foldl (\<lambda>acc s. acc + (if getDistance (lat userLocation, lng userLocation) (lat s, lng s) \<le> radiusMeters
                              then 1 else 0)) 0 stopsArr"

definition checkRouteStops ::
  "geolib \<Rightarrow> string option \<Rightarrow> directions_api \<Rightarrow> string \<Rightarrow> cached_routes option \<Rightarrow>
   real latlng \<Rightarrow> real \<Rightarrow> stop list \<Rightarrow> period \<Rightarrow> google_usage \<Rightarrow> check_result \<times> google_usage" where
  "checkRouteStops getDistance GOOGLE_MAPS_KEY directions today cached userLocation radiusMeters
       stopsArr routeType googleUsage =
     (if length stopsArr = 0 then (\<lparr>intersects = False, stopCount = 0, routePath = []\<rparr>, googleUsage)
      else if length stopsArr = 1 then
        (let s = stopsArr ! 0;
             dist = getDistance (lat userLocation, lng userLocation) (lat s, lng s)
         in (\<lparr>intersects = (dist \<le> radiusMeters),
              stopCount = (if dist \<le> radiusMeters then 1 else 0),
              routePath = [point_of s]\<rparr>, googleUsage))
      else
        (let stored = (case cached of
                         None \<Rightarrow> None
                       | Some c \<Rightarrow> if routeType = MORNING then cachedMorningRoute c
                                   else cachedEveningRoute c);
             (path, googleUsage) =
               (case stored of
                  Some ps \<Rightarrow>
                    if length ps > 0 then (ps, googleUsage)
                    else getRoutePath GOOGLE_MAPS_KEY directions today (coords (stopsArr ! 0))
                           (coords (stopsArr ! (length stopsArr - 1)))
                           (map coords (butlast (tl stopsArr))) googleUsage
                | None \<Rightarrow>
                    getRoutePath GOOGLE_MAPS_KEY directions today (coords (stopsArr ! 0))
                      (coords (stopsArr ! (length stopsArr - 1)))
                      (map coords (butlast (tl stopsArr))) googleUsage);
             (minDist, minIndex) = getMinDistanceAlongPath getDistance userLocation (Some path)
         in if (case minDist of None \<Rightarrow> False | Some m \<Rightarrow> m \<le> radiusMeters)
            then (\<lparr>intersects = True,
                   stopCount = stops_within getDistance userLocation radiusMeters stopsArr,
                   routePath = path\<rparr>, googleUsage)
            else (\<lparr>intersects = False, stopCount = 0, routePath = path\<rparr>, googleUsage)))"

text \<open>
  What the description of the matcher speaks of: the distances from the user to the
  vertices of a path (those whose coordinates are numbers), and the least of them.
\<close>

definition numeric :: "point \<Rightarrow> bool" where
  "numeric p = (lat p \<noteq> NaN \<and> lng p \<noteq> NaN)"

definition vertex_distance :: "geolib \<Rightarrow> real latlng \<Rightarrow> point \<Rightarrow> real option" where
  "vertex_distance getDistance userLocation p =
     (case (lat p, lng p) of
        (Number la, Number lo) \<Rightarrow> Some (getDistance (la, lo) (lat userLocation, lng userLocation))
      | _ \<Rightarrow> None)"

definition vertex_distances :: "geolib \<Rightarrow> real latlng \<Rightarrow> point list \<Rightarrow> real list" where
  "vertex_distances getDistance userLocation path =
     List.map_filter (vertex_distance getDistance userLocation) path"

definition min_vertex_distance :: "geolib \<Rightarrow> real latlng \<Rightarrow> point list \<Rightarrow> real option" where
  "min_vertex_distance getDistance userLocation path =
     (let ds = vertex_distances getDistance userLocation path
      in if ds = [] then None else Some (Min (set ds)))"

text \<open>A stand-in for geolib in the examples: the distance along the grid, in degrees.\<close>

definition grid_distance :: geolib where
  "grid_distance a b = \<bar>fst a - fst b\<bar> + \<bar>snd a - snd b\<bar>"

definition offline :: directions_api where
  "offline origin destination waypoints = ConnectionError"

definition usage0 :: google_usage where
  "usage0 = \<lparr>date = ''2024-01-01'', google_usage.count = 0, limit = 1000\<rparr>"

section \<open>server.js: geocoding\<close>

text \<open>
  The errors the geocoding functions throw: \<open>'Invalid location for geocoding'\<close>,
  \<open>'Google Maps daily usage limit exceeded'\<close>, \<open>'Geocode failed: ' + status\<close>,
  \<open>'Google Maps API key not configured'\<close>, \<open>'Invalid lat/lng'\<close>, the error of a failed
  request, the \<open>SyntaxError\<close> of \<open>JSON.parse\<close> and the \<open>TypeError\<close> of reading a
  missing field.
\<close>

datatype error =
  InvalidLocation
| DailyLimitExceeded
| GeocodeFailed string
| KeyNotConfigured
| InvalidLatLng
| RequestError
| SyntaxError
| TypeError

datatype 'a outcome = Threw error | Returned 'a

text \<open>
  An HTTP answer: the \<open>error\<close> event, a body that \<open>JSON.parse\<close> rejects, or the parsed
  body.
\<close>

datatype 'a http = Failed | Unparsable | Json 'a

text \<open>
  A result of the Google geocoder: the \<open>long_name\<close>s of its address components, its
  \<open>formatted_address\<close> (empty when missing) and its \<open>geometry.location\<close>. A body: the
  \<open>status\<close> and the \<open>results\<close> (\<open>None\<close> when not an array).
\<close>

datatype google_result = GoogleResult "string list" string "real latlng option"

datatype google_body = GoogleBody string "google_result list option"

datatype google_request = GeocodeRequest string "string list" string

text \<open>A place of Nominatim: \<open>parseFloat(lat)\<close>, \<open>parseFloat(lon)\<close>, \<open>display_name\<close>.\<close>

datatype place = Place number number string

datatype request =
  GoogleGeocode google_request
| NominatimSearch string
| GoogleReverse real real
| NominatimReverse real real

record providers =
  google_geocode :: "google_request \<Rightarrow> google_body http"
  nominatim_search :: "string \<Rightarrow> place list option http"
  google_reverse :: "real \<Rightarrow> real \<Rightarrow> google_body http"
  nominatim_reverse :: "real \<Rightarrow> real \<Rightarrow> string option http"

record geocode = "number latlng" +
  formatted_address :: string

record preferences =
  GEOCODE_STATE :: string
  GEOCODE_CITY :: string
  GEOCODE_COUNTRY :: string
  GEOCODE_REGION :: string

text \<open>\<open>toFixed(6)\<close>: the sign and the number of millionths, rounded half up in magnitude.\<close>

datatype fixed6 = Fixed6 bool nat

definition toFixed6 :: "real \<Rightarrow> fixed6" where
  "toFixed6 x = Fixed6 (x < 0) (nat \<lfloor>\<bar>x\<bar> * 1000000 + 1 / 2\<rfloor>)"

text \<open>
  The state the geocoding functions share: the two caches, the usage counter, and the
  requests sent so far.
\<close>

record geo_state =
  geocodeCache :: "string \<rightharpoonup> geocode"
  reverseGeocodeCache :: "fixed6 \<times> fixed6 \<rightharpoonup> string"
  googleUsage :: google_usage
  requests :: "request list"

text \<open>\<open>new RegExp(escaped, 'i').test(s)\<close>: \<open>s\<close> contains the text, whatever the case.\<close>

fun contains :: "string \<Rightarrow> string \<Rightarrow> bool" where
  "contains needle [] = (needle = [])"
| "contains needle (c # cs) = (take (length needle) (c # cs) = needle \<or> contains needle cs)"

definition test_i :: "string \<Rightarrow> string \<Rightarrow> bool" where
  "test_i needle s = contains (toLowerCase needle) (toLowerCase s)"

definition looks_like_poi :: "string \<Rightarrow> bool" where
  "looks_like_poi s =
     list_ex (\<lambda>w. test_i w s)
       [''market'', ''station'', ''bus'', ''stand'', ''center'', ''centre'', ''college'']"

definition augment :: "preferences \<Rightarrow> string \<Rightarrow> string" where
  "augment env locationName =
     (let statePref = GEOCODE_STATE env;
          cityPref = GEOCODE_CITY env;
          queryAugmented = trim locationName;
          queryAugmented =
            (if statePref \<noteq> [] \<and> \<not> test_i statePref queryAugmented
             then queryAugmented @ '', '' @ statePref else queryAugmented);
          queryAugmented =
            (if cityPref \<noteq> [] \<and> \<not> test_i cityPref queryAugmented \<and> looks_like_poi queryAugmented
             then queryAugmented @ '', '' @ cityPref else queryAugmented)
      in queryAugmented)"

definition geocode_request :: "preferences \<Rightarrow> string \<Rightarrow> google_request" where
  "geocode_request env locationName =
     GeocodeRequest (augment env locationName)
       ((if GEOCODE_COUNTRY env \<noteq> [] then [''country:'' @ GEOCODE_COUNTRY env] else []) @
        (if GEOCODE_STATE env \<noteq> [] then [''administrative_area:'' @ GEOCODE_STATE env] else []) @
        (if GEOCODE_CITY env \<noteq> [] then [''locality:'' @ GEOCODE_CITY env] else []))
       (GEOCODE_REGION env)"

text \<open>
  The loop that picks among the results of the Google geocoder; \<open>break\<close> returns at once.
\<close>

fun choose_result :: "string \<Rightarrow> string \<Rightarrow> google_result option \<Rightarrow> google_result list \<Rightarrow> google_result option" where
  "choose_result stateNorm cityNorm chosen [] = chosen"
| "choose_result stateNorm cityNorm chosen (r # rs) =
     (case r of GoogleResult comps address location \<Rightarrow>
        (let compNames = map toLowerCase comps;
             hasState = (stateNorm \<noteq> [] \<and> stateNorm \<in> set compNames);
             hasCity = (cityNorm \<noteq> [] \<and> cityNorm \<in> set compNames)
         in if chosen = None \<or> (stateNorm \<noteq> [] \<and> cityNorm \<noteq> [] \<and> hasState \<and> hasCity)
               \<or> (stateNorm \<noteq> [] \<and> hasState \<and> cityNorm = [])
               \<or> (cityNorm \<noteq> [] \<and> hasCity \<and> stateNorm = [])
            then
              (if stateNorm \<noteq> [] \<and> cityNorm \<noteq> [] then
                 (if hasState \<and> hasCity then Some r else choose_result stateNorm cityNorm chosen rs)
               else if stateNorm \<noteq> [] \<and> hasState then Some r
               else if cityNorm \<noteq> [] \<and> hasCity then Some r
               else if stateNorm = [] \<and> cityNorm = [] \<and> chosen = None
                 then choose_result stateNorm cityNorm (Some r) rs
               else if chosen = None then choose_result stateNorm cityNorm (Some r) rs
               else choose_result stateNorm cityNorm chosen rs)
            else choose_result stateNorm cityNorm chosen rs))"

text \<open>\<open>j.status === 'OK' && Array.isArray(j.results) && j.results.length\<close>\<close>

definition ok_with_results :: "string \<Rightarrow> google_result list option \<Rightarrow> bool" where
  "ok_with_results status results = (status = ''OK'' \<and> results \<noteq> None \<and> the results \<noteq> [])"

definition cache_key :: "string \<Rightarrow> string" where
  "cache_key locationName = toLowerCase (trim locationName)"

definition nominatimGeocode :: "providers \<Rightarrow> string \<Rightarrow> geo_state \<Rightarrow> geocode option outcome \<times> geo_state" where
  "nominatimGeocode web locationName st =
     (let st = st\<lparr>requests := requests st @ [NominatimSearch locationName]\<rparr>
      in case nominatim_search web locationName of
           Failed \<Rightarrow> (Threw RequestError, st)
         | Unparsable \<Rightarrow> (Threw SyntaxError, st)
         | Json (Some (Place la lo display_name # others)) \<Rightarrow>
             (let out = \<lparr>lat = la, lng = lo, formatted_address = display_name\<rparr>
              in (Returned (Some out),
                  st\<lparr>geocodeCache := (geocodeCache st)(cache_key locationName \<mapsto> out)\<rparr>))
         | Json _ \<Rightarrow> (Returned None, st))"

definition geocodeLocation ::
  "string option \<Rightarrow> preferences \<Rightarrow> providers \<Rightarrow> string \<Rightarrow> string \<Rightarrow> geo_state
     \<Rightarrow> geocode option outcome \<times> geo_state" where
  "geocodeLocation GOOGLE_MAPS_KEY env web today locationName st =
     (if locationName = [] then (Threw InvalidLocation, st)
      else
        (let key = cache_key locationName
         in case geocodeCache st key of
              Some cached \<Rightarrow> (Returned (Some cached), st)
            | None \<Rightarrow>
                if GOOGLE_MAPS_KEY = None then nominatimGeocode web locationName st
                else
                  (case checkAndIncrementGoogleUsage today (googleUsage st) of
                     (False, usage) \<Rightarrow> (Threw DailyLimitExceeded, st\<lparr>googleUsage := usage\<rparr>)
                   | (True, usage) \<Rightarrow>
                       (let st = st\<lparr>googleUsage := usage,
                                     requests := requests st @ [GoogleGeocode (geocode_request env locationName)]\<rparr>
                        in case google_geocode web (geocode_request env locationName) of
                             Failed \<Rightarrow> (Threw RequestError, st)
                           | Unparsable \<Rightarrow> (Threw SyntaxError, st)
                           | Json (GoogleBody status results) \<Rightarrow>
                               if ok_with_results status results
                               then
                                 (let chosen = choose_result (toLowerCase (GEOCODE_STATE env))
                                                 (toLowerCase (GEOCODE_CITY env)) None (the results);
                                      chosen = (if chosen = None then hd (the results) else the chosen)
                                  in case chosen of GoogleResult comps address location \<Rightarrow>
                                       (case location of
                                          None \<Rightarrow> (Threw TypeError, st)
                                        | Some loc \<Rightarrow>
                                            (let out = \<lparr>lat = Number (lat loc), lng = Number (lng loc),
                                                        formatted_address = address\<rparr>
                                             in (Returned (Some out),
                                                 st\<lparr>geocodeCache := (geocodeCache st)(key \<mapsto> out)\<rparr>))))
                               else
                                 (case nominatimGeocode web locationName st of
                                    (Returned (Some resGeo), st) \<Rightarrow> (Returned (Some resGeo), st)
                                  | (other, st) \<Rightarrow>
                                      (Threw (GeocodeFailed (if status = [] then ''NO_RESULTS'' else status)),
                                       st))))))"


definition nominatimReverse :: "providers \<Rightarrow> real \<Rightarrow> real \<Rightarrow> geo_state \<Rightarrow> string option outcome \<times> geo_state" where
  "nominatimReverse web la lo st =
     (let st = st\<lparr>requests := requests st @ [NominatimReverse la lo]\<rparr>
      in case nominatim_reverse web la lo of
           Failed \<Rightarrow> (Threw RequestError, st)
         | Unparsable \<Rightarrow> (Threw SyntaxError, st)
         | Json display_name \<Rightarrow>
             if truthy display_name then (Returned display_name, st) else (Returned None, st))"

definition reverseGeocode ::
  "string option \<Rightarrow> providers \<Rightarrow> string \<Rightarrow> real \<Rightarrow> real \<Rightarrow> geo_state \<Rightarrow> string option outcome \<times> geo_state" where
  "reverseGeocode GOOGLE_MAPS_KEY web today la lo st =
     (let key = (toFixed6 la, toFixed6 lo)
      in case reverseGeocodeCache st key of
           Some cached \<Rightarrow> (Returned (Some cached), st)
         | None \<Rightarrow>
             if GOOGLE_MAPS_KEY = None then
               (case nominatimReverse web la lo st of
                  (Returned (Some addr), st) \<Rightarrow>
                    (Returned (Some addr), st\<lparr>reverseGeocodeCache := (reverseGeocodeCache st)(key \<mapsto> addr)\<rparr>)
                | (other, st) \<Rightarrow> (Threw KeyNotConfigured, st))
             else
               (case checkAndIncrementGoogleUsage today (googleUsage st) of
                  (False, usage) \<Rightarrow> (Threw DailyLimitExceeded, st\<lparr>googleUsage := usage\<rparr>)
                | (True, usage) \<Rightarrow>
                    (let st = st\<lparr>googleUsage := usage, requests := requests st @ [GoogleReverse la lo]\<rparr>
                     in case google_reverse web la lo of
                          Json (GoogleBody status (Some (GoogleResult comps addr location # others))) \<Rightarrow>
                            if status = ''OK''
                            then (Returned (Some addr),
                                  st\<lparr>reverseGeocodeCache := (reverseGeocodeCache st)(key \<mapsto> addr)\<rparr>)
                            else (Returned None, st)
                        | _ \<Rightarrow> (Returned None, st))))"

text \<open>
  \<open>geocodeLatLng\<close>. \<open>toString\<close> is the conversion of a number to a string that the
  template \<open>`${nLat}, ${nLng}`\<close> applies.
\<close>

definition synthesized :: "(real \<Rightarrow> string) \<Rightarrow> real \<Rightarrow> real \<Rightarrow> string" where
  "synthesized toString nLat nLng = toString nLat @ '', '' @ toString nLng"

definition nominatim_or_raw ::
  "providers \<Rightarrow> (real \<Rightarrow> string) \<Rightarrow> real \<Rightarrow> real \<Rightarrow> geo_state \<Rightarrow> geocode outcome \<times> geo_state" where
  "nominatim_or_raw web toString nLat nLng st =
     (case nominatimReverse web nLat nLng st of
        (Returned (Some addr), st) \<Rightarrow>
          (Returned \<lparr>lat = Number nLat, lng = Number nLng, formatted_address = addr\<rparr>, st)
      | (other, st) \<Rightarrow>
          (Returned \<lparr>lat = Number nLat, lng = Number nLng,
                     formatted_address = synthesized toString nLat nLng\<rparr>, st))"

definition geocodeLatLng ::
  "string option \<Rightarrow> providers \<Rightarrow> (real \<Rightarrow> string) \<Rightarrow> string \<Rightarrow> number \<Rightarrow> number \<Rightarrow> geo_state
     \<Rightarrow> geocode outcome \<times> geo_state" where
  "geocodeLatLng GOOGLE_MAPS_KEY web toString today la lo st =
     (case (la, lo) of
        (Number nLat, Number nLng) \<Rightarrow>
          if GOOGLE_MAPS_KEY \<noteq> None then
            (case checkAndIncrementGoogleUsage today (googleUsage st) of
               (False, usage) \<Rightarrow> (Threw DailyLimitExceeded, st\<lparr>googleUsage := usage\<rparr>)
             | (True, usage) \<Rightarrow>
                 (let st = st\<lparr>googleUsage := usage, requests := requests st @ [GoogleReverse nLat nLng]\<rparr>
                  in case google_reverse web nLat nLng of
                       Failed \<Rightarrow> nominatim_or_raw web toString nLat nLng st
                     | Unparsable \<Rightarrow> (Threw SyntaxError, st)
                     | Json (GoogleBody status results) \<Rightarrow>
                         (case results of
                            Some (GoogleResult comps addr location # others) \<Rightarrow>
                              if status = ''OK'' then
                                (let loc = (case location of None \<Rightarrow> \<lparr>lat = nLat, lng = nLng\<rparr>
                                            | Some l \<Rightarrow> l)
                                 in (Returned \<lparr>lat = Number (lat loc), lng = Number (lng loc),
                                       formatted_address =
                                         (if addr \<noteq> [] then addr else synthesized toString nLat nLng)\<rparr>,
                                     st))
                              else nominatim_or_raw web toString nLat nLng st
                          | _ \<Rightarrow> nominatim_or_raw web toString nLat nLng st)))
          else nominatim_or_raw web toString nLat nLng st
      | _ \<Rightarrow> (Threw InvalidLatLng, st))"

text \<open>Examples: no provider answers; nothing cached; a budget of 1000 that is used up.\<close>

definition unreachable :: providers where
  "unreachable = \<lparr>google_geocode = (\<lambda>q. Failed), nominatim_search = (\<lambda>q. Failed),
                   google_reverse = (\<lambda>la lo. Failed), nominatim_reverse = (\<lambda>la lo. Failed)\<rparr>"

definition no_preferences :: preferences where
  "no_preferences = \<lparr>GEOCODE_STATE = [], GEOCODE_CITY = [], GEOCODE_COUNTRY = [], GEOCODE_REGION = []\<rparr>"

definition exhausted :: google_usage where
  "exhausted = \<lparr>date = ''2024-01-01'', google_usage.count = 1000, limit = 1000\<rparr>"

definition fresh_state :: "google_usage \<Rightarrow> geo_state" where
  "fresh_state usage = \<lparr>geocodeCache = Map.empty, reverseGeocodeCache = Map.empty,
                         googleUsage = usage, requests = []\<rparr>"

text \<open>A stand-in for the conversion of a number to a string, right at 0 and at 1.\<close>

definition decimal :: "real \<Rightarrow> string" where
  "decimal x = (if x = 0 then ''0'' else if x = 1 then ''1'' else ''?'')"

definition one_place :: providers where
  "one_place = unreachable\<lparr>nominatim_search :=
     (\<lambda>q. Json (Some [Place (Number (33 / 2)) (Number (403 / 5)) ''Vijayawada'']))\<rparr>"


text \<open>A state whose reverse cache holds one address.\<close>

definition remembered :: geo_state where
  "remembered = (fresh_state usage0)\<lparr>reverseGeocodeCache :=
     Map.empty((toFixed6 (1234564 / 10000000), toFixed6 1) \<mapsto> ''Benz Circle'')\<rparr>"

text \<open>A provider produced an address: Nominatim a \<open>display_name\<close>, Google an \<open>OK\<close> result.\<close>

definition named :: "string option http \<Rightarrow> bool" where
  "named reply = (case reply of Json display_name \<Rightarrow> truthy display_name | _ \<Rightarrow> False)"

definition located :: "google_body http \<Rightarrow> bool" where
  "located reply =
     (case reply of
        Json (GoogleBody status (Some (r # rs))) \<Rightarrow> status = ''OK''
      | _ \<Rightarrow> False)"

section \<open>server.js: the intersection test on the values it is given\<close>

text \<open>
  A value found in a coordinate field, and \<open>Number(...)\<close> of it. The conversion of a string
  (\<open>StringToNumber\<close> of the language) is a parameter; a missing field is \<open>undefined\<close>.
  An array or an object, as JSON has them, is given by the string that \<open>toString\<close> makes of
  it, which is what \<open>Number(...)\<close> converts: \<open>''\<close> for \<open>[]\<close>, \<open>'5'\<close> for \<open>[5]\<close>,
  \<open>'[object Object]'\<close> for \<open>{}\<close>.
\<close>

datatype js = JUndefined | JNull | JBoolean bool | JNumber number | JString string | JObject string

fun to_number :: "(string \<Rightarrow> number) \<Rightarrow> js \<Rightarrow> number" where
  "to_number StringToNumber JUndefined = NaN"
| "to_number StringToNumber JNull = Number 0"
| "to_number StringToNumber (JBoolean b) = Number (if b then 1 else 0)"
| "to_number StringToNumber (JNumber n) = n"
| "to_number StringToNumber (JString s) = StringToNumber s"
| "to_number StringToNumber (JObject s) = StringToNumber s"

text \<open>
  An entry of a path: \<open>null\<close> or \<open>undefined\<close>, of which \<open>p.lat\<close> throws a \<open>TypeError\<close>, or
  a value with its \<open>lat\<close> and \<open>lng\<close>.
\<close>

datatype entry = Nullish | Entry js js

text \<open>The loop of \<open>isPathIntersectsCircle\<close> on such entries, and the function.\<close>

fun intersects_entries ::
  "geolib \<Rightarrow> (string \<Rightarrow> number) \<Rightarrow> real \<times> real \<Rightarrow> real \<Rightarrow> entry list \<Rightarrow> error + bool" where
  "intersects_entries getDistance StringToNumber center radiusMeters [] = Inr False"
| "intersects_entries getDistance StringToNumber center radiusMeters (Nullish # path) = Inl TypeError"
| "intersects_entries getDistance StringToNumber center radiusMeters (Entry la lo # path) =
     (case (to_number StringToNumber la, to_number StringToNumber lo) of
        (Number a, Number b) \<Rightarrow>
          (let d = getDistance (a, b) center
           in if d \<le> radiusMeters then Inr True
              else intersects_entries getDistance StringToNumber center radiusMeters path)
      | _ \<Rightarrow> intersects_entries getDistance StringToNumber center radiusMeters path)"

definition isPathIntersectsCircle_js ::
  "geolib \<Rightarrow> (string \<Rightarrow> number) \<Rightarrow> real latlng \<Rightarrow> entry list option \<Rightarrow> real \<Rightarrow> error + bool" where
  "isPathIntersectsCircle_js getDistance StringToNumber userLocation path radiusMeters =
     (case path of
        None \<Rightarrow> Inr False
      | Some ps \<Rightarrow>
          if length ps = 0 then Inr False
          else intersects_entries getDistance StringToNumber (lat userLocation, lng userLocation)
                 radiusMeters ps)"

text \<open>The loop of \<open>getMinDistanceAlongPath\<close> on such entries, and the function.\<close>

fun min_entries ::
  "geolib \<Rightarrow> (string \<Rightarrow> number) \<Rightarrow> real \<times> real \<Rightarrow> entry list \<Rightarrow> int \<Rightarrow> real option \<times> int
     \<Rightarrow> error + real option \<times> int" where
  "min_entries getDistance StringToNumber center [] i (minDist, minIndex) = Inr (minDist, minIndex)"
| "min_entries getDistance StringToNumber center (Nullish # path) i (minDist, minIndex) = Inl TypeError"
| "min_entries getDistance StringToNumber center (Entry la lo # path) i (minDist, minIndex) =
     (case (to_number StringToNumber la, to_number StringToNumber lo) of
        (Number a, Number b) \<Rightarrow>
          (let d = getDistance (a, b) center
           in if (case minDist of None \<Rightarrow> True | Some m \<Rightarrow> d < m)
              then min_entries getDistance StringToNumber center path (i + 1) (Some d, i)
              else min_entries getDistance StringToNumber center path (i + 1) (minDist, minIndex))
      | _ \<Rightarrow> min_entries getDistance StringToNumber center path (i + 1) (minDist, minIndex))"

definition getMinDistanceAlongPath_js ::
  "geolib \<Rightarrow> (string \<Rightarrow> number) \<Rightarrow> real latlng \<Rightarrow> entry list option \<Rightarrow> error + real option \<times> int" where
  "getMinDistanceAlongPath_js getDistance StringToNumber userLocation path =
     (case path of
        None \<Rightarrow> Inr (None, - 1)
      | Some ps \<Rightarrow>
          min_entries getDistance StringToNumber (lat userLocation, lng userLocation) ps 0 (None, - 1))"

text \<open>The point an entry stands for once \<open>Number(...)\<close> has been applied to its fields.\<close>

fun converted :: "(string \<Rightarrow> number) \<Rightarrow> entry \<Rightarrow> point" where
  "converted StringToNumber (Entry la lo) =
     \<lparr>lat = to_number StringToNumber la, lng = to_number StringToNumber lo\<rparr>"
| "converted StringToNumber Nullish = \<lparr>lat = NaN, lng = NaN\<rparr>"

text \<open>An entry that the loops skip: \<open>Number.isNaN\<close> holds of its \<open>lat\<close> or of its \<open>lng\<close>.\<close>

fun skipped :: "(string \<Rightarrow> number) \<Rightarrow> entry \<Rightarrow> bool" where
  "skipped StringToNumber (Entry la lo) =
     (to_number StringToNumber la = NaN \<or> to_number StringToNumber lo = NaN)"
| "skipped StringToNumber Nullish = False"

text \<open>
  A stand-in for the conversion of strings in the examples, right on the strings that hold
  no numeral: blank ones are 0, the others \<open>NaN\<close>.
\<close>

definition blank_or_NaN :: "string \<Rightarrow> number" where
  "blank_or_NaN s = (if trim s = [] then Number 0 else NaN)"


section \<open>server.js: the route cache in memory\<close>






section \<open>Verified properties\<close>

subsection \<open>The route cache: time to live\<close>


text \<open>The sweep and the read agree on what is expired.\<close>

lemma clearExpiredCache_keeps:
  assumes "reachable db"
  shows "routeCache (clearExpiredCache db now) k = Some row \<longleftrightarrow>
           routeCache db k = Some row \<and> now - updatedAt row \<le> 7200000"
  using assms
  by (auto simp: clearExpiredCache_def ROUTE_CACHE_REFRESH_HOURS_def split: option.splits)


subsection \<open>The availability rate limit\<close>

lemma toLowerCase_Nil: "toLowerCase s = [] \<longleftrightarrow> s = []"
  by (simp add: toLowerCase_def)

lemma checks_append:
  "checks cfg ip contact (xs @ ys) st =
     (let (g1, s1) = checks cfg ip contact xs st; (g2, s2) = checks cfg ip contact ys s1
      in (g1 @ g2, s2))"
  by (induction xs arbitrary: st) (auto simp: Let_def split: prod.splits)

lemma checks_locked:
  assumes "\<not> isAvailabilityAllowed cfg st ip (Some (toLowerCase contact))" and "contact \<noteq> []"
  shows "checks cfg ip contact ts st = (replicate (length ts) TooManyRequests, st)"
  using assms by (induction ts) (auto simp: check_availability_def Let_def toLowerCase_Nil)

lemma fresh_bump:
  assumes "fresh stored k (t # ts)" "\<forall>t'\<in>set ts. t' - t \<le> 3600000"
  shows "fresh (Some (bump t stored)) (k + 1) ts"
  using assms by (auto simp: fresh_def bump_def Let_def split: option.splits)

lemma fresh_count: "fresh stored k ts \<Longrightarrow> stored_count stored = k"
  by (auto simp: fresh_def stored_count_def split: option.splits)

lemma checks_within_window:
  assumes "contact \<noteq> []"
    and "\<forall>t\<in>set ts. \<forall>t'\<in>set ts. t' - t \<le> 3600000"
    and "fresh (availabilityCounters st ip) k ts"
    and "fresh (availabilityContactCounters st (toLowerCase contact)) k' ts"
    and "k + int (length ts) \<le> AVAILABILITY_LIMIT_PER_HOUR cfg"
    and "k' + int (length ts) \<le> AVAILABILITY_LIMIT_PER_CONTACT_PER_HOUR cfg"
  shows "fst (checks cfg ip contact ts st) = replicate (length ts) Accepted \<and>
         stored_count (availabilityCounters (snd (checks cfg ip contact ts st)) ip) = k + int (length ts) \<and>
         stored_count (availabilityContactCounters (snd (checks cfg ip contact ts st)) (toLowerCase contact))
           = k' + int (length ts)"
  using assms
proof (induction ts arbitrary: st k k')
  case Nil
  then show ?case by (simp add: fresh_count)
next
  case (Cons t ts)
  let ?key = "Some (toLowerCase contact)"
  let ?st1 = "incrementAvailability t ip ?key st"
  have allowed: "isAvailabilityAllowed cfg st ip ?key"
    using Cons.prems fresh_count [OF Cons.prems(3)] fresh_count [OF Cons.prems(4)]
    by (simp add: isAvailabilityAllowed_def toLowerCase_Nil)
  have step: "check_availability cfg ip (Some contact) True t st = (Accepted, ?st1)"
    using allowed Cons.prems(1) by (simp add: check_availability_def Let_def)
  have later: "\<forall>t'\<in>set ts. t' - t \<le> 3600000"
    using Cons.prems(2) by simp
  have f1: "fresh (availabilityCounters ?st1 ip) (k + 1) ts"
    using fresh_bump [OF Cons.prems(3) later] Cons.prems(1)
    by (simp add: incrementAvailability_def Let_def toLowerCase_Nil)
  have f2: "fresh (availabilityContactCounters ?st1 (toLowerCase contact)) (k' + 1) ts"
    using fresh_bump [OF Cons.prems(4) later] Cons.prems(1)
    by (simp add: incrementAvailability_def Let_def toLowerCase_Nil)
  have pw: "\<forall>t\<in>set ts. \<forall>t'\<in>set ts. t' - t \<le> 3600000"
    using Cons.prems(2) by simp
  have ih: "fst (checks cfg ip contact ts ?st1) = replicate (length ts) Accepted \<and>
         stored_count (availabilityCounters (snd (checks cfg ip contact ts ?st1)) ip) = (k + 1) + int (length ts) \<and>
         stored_count (availabilityContactCounters (snd (checks cfg ip contact ts ?st1)) (toLowerCase contact))
           = (k' + 1) + int (length ts)"
    using Cons.prems(5,6) by (intro Cons.IH [OF Cons.prems(1) pw f1 f2]) simp_all
  show ?case using ih step by (simp add: split_beta)
qed

text \<open>
  C2, on the code. A client with no history sends well-formed checks with the same
  contact. The first \<open>cap\<close> checks, all within one hour, are accepted (\<open>cap\<close> is the
  smaller of the per-client and the per-contact limit), and the next one is rejected. But
  so is every later check, whatever its time: the gate \<open>isAvailabilityAllowed\<close> reads the
  stored count without looking at the window, and the window is only restarted by
  \<open>incrementAvailability\<close>, which a rejected request never reaches. The client is never
  admitted again after the hour has rolled over.
\<close>

theorem availability_never_recovers:
  assumes "contact \<noteq> []"
    and "\<forall>t\<in>set ts. \<forall>t'\<in>set ts. t' - t \<le> 3600000"
    and "int (length ts) = min (AVAILABILITY_LIMIT_PER_HOUR cfg) (AVAILABILITY_LIMIT_PER_CONTACT_PER_HOUR cfg)"
  shows "fst (checks cfg ip contact (ts @ later) no_history)
           = replicate (length ts) Accepted @ replicate (length later) TooManyRequests"
proof -
  let ?r = "checks cfg ip contact ts no_history"
  have w: "fst ?r = replicate (length ts) Accepted \<and>
         stored_count (availabilityCounters (snd ?r) ip) = 0 + int (length ts) \<and>
         stored_count (availabilityContactCounters (snd ?r) (toLowerCase contact)) = 0 + int (length ts)"
    using assms by (intro checks_within_window) (simp_all add: fresh_def no_history_def)
  have "\<not> isAvailabilityAllowed cfg (snd ?r) ip (Some (toLowerCase contact))"
    using w assms(1,3) by (auto simp: isAvailabilityAllowed_def toLowerCase_Nil min_def split: if_splits)
  then have "checks cfg ip contact later (snd ?r) = (replicate (length later) TooManyRequests, snd ?r)"
    using assms(1) by (rule checks_locked)
  then show ?thesis
    using w by (simp add: checks_append split_beta)
qed

text \<open>
  With the default limits (200 per client, 60 per contact): 60 checks at time 0 are
  accepted, and the checks after one second, one hour, two hours and one day are all
  rejected.
\<close>

theorem availability_lockout:
  "fst (checks default_limits ''203.0.113.9'' ''rider@example.org''
          (replicate 60 0 @ [1000, 3600001, 7200000, 86400000]) no_history)
     = replicate 60 Accepted @ [TooManyRequests, TooManyRequests, TooManyRequests, TooManyRequests]"
  using availability_never_recovers
    [of "''rider@example.org''" "replicate 60 0" default_limits "''203.0.113.9''"
        "[1000, 3600001, 7200000, 86400000]"]
  by (simp add: default_limits_def)

subsection \<open>The debounced rebuild\<close>







text \<open>A cooldown beyond \<open>TIMEOUT_MAX\<close>: the timer is set to 1 ms.\<close>

lemma long_cooldown_clamped:
  "builds (settle (ticks 3000000000 [[(0, False)]] (idle_since 0))) = [1]"
  by (simp add: idle_since_def settle_def event_loop_def scheduleRouteCacheRebuild_def
      rebuild_callback_def setTimeout_delay_def TIMEOUT_MAX_def Let_def)

subsection \<open>The polyline decoder\<close>

lemma toInt32_id: "- 2147483648 \<le> x \<Longrightarrow> x < 2147483648 \<Longrightarrow> toInt32 x = x"
  unfolding toInt32_def by (rule signed_take_bit_int_eq_self) simp_all


lemma or_push_bit_add:
  fixes r x :: int
  assumes "0 \<le> r" "r < 2 ^ s"
  shows "r OR push_bit s x = r + x * 2 ^ s"
proof -
  have "take_bit s r = r" using assms by (simp add: take_bit_int_eq_self)
  then have "r OR push_bit s x = concat_bit s r x" by (simp add: concat_bit_def)
  also have "\<dots> = take_bit s r + push_bit s x" by (rule concat_bit_eq)
  finally show ?thesis using \<open>take_bit s r = r\<close> by (simp add: push_bit_eq_mult)
qed

lemma and_31: "(x::int) AND 31 = x mod 32"
proof -
  have "x AND mask 5 = take_bit 5 x" by (simp only: take_bit_eq_mask)
  then show ?thesis by (simp add: take_bit_eq_mod mask_eq_exp_minus_1)
qed

lemma and_1: "(x::int) AND 1 = x mod 2"
  by (simp add: and_one_eq)

lemma of_char_group: "n < 193 \<Longrightarrow> (of_char (char_of (n + 63 :: nat)) :: int) = int n + 63"
proof -
  assume "n < 193"
  have "(of_char (char_of (n + 63)) :: int) = int (of_char (char_of (n + 63)))"
    by (simp only: of_nat_of_char)
  also have "\<dots> = int ((n + 63) mod 256)" by (simp only: of_char_of)
  finally show ?thesis using \<open>n < 193\<close> by simp
qed

lemma shift_group:
  fixes r :: int
  assumes "0 \<le> r" "r < 2 ^ s" "s \<le> 30" "g < 32" "r + int g * 2 ^ s < 2 ^ 31"
  shows "js_or r (js_shl (js_and (int g) 31) (int s)) = r + int g * 2 ^ s"
proof -
  have g: "js_and (int g) 31 = int g"
    using assms(4) by (simp add: js_and_def toInt32_id and_31)
  have "int g * 2 ^ s \<le> r + int g * 2 ^ s" using assms(1) by simp
  then have small: "int g * 2 ^ s < 2 ^ 31" using assms(5) by linarith
  have r31: "r < 2 ^ 31" using assms(1,5) by (smt (verit) mult_nonneg_nonneg of_nat_0_le_iff zero_le_power)
  have nonneg: "0 \<le> int g * 2 ^ s" by simp
  have wrap: "toInt32 (int g * 2 ^ s) = int g * 2 ^ s"
  proof (rule toInt32_id)
    show "- 2147483648 \<le> int g * 2 ^ s" using nonneg by linarith
    show "int g * 2 ^ s < 2147483648" using small by simp
  qed
  have sh: "js_shl (int g) (int s) = push_bit s (int g)"
    using assms(3,4) wrap by (simp add: js_shl_def toInt32_id push_bit_eq_mult)
  have "toInt32 r = r"
    using assms(1) r31 by (intro toInt32_id) simp_all
  then have "js_or r (push_bit s (int g)) = r OR push_bit s (int g)"
    using wrap by (simp add: js_or_def push_bit_eq_mult)
  then show ?thesis
    using g sh or_push_bit_add [OF assms(1,2)] by simp
qed

lemma decode_value_groups:
  fixes r :: int
  assumes "0 \<le> r" "r < 2 ^ s" "s \<le> 30" "r + int n * 2 ^ s < 2 ^ 31"
  shows "decode_value (groups n @ rest) (int s) r = (r + int n * 2 ^ s, rest)"
  using assms
proof (induction n arbitrary: s r rule: groups.induct)
  case (1 n)
  show ?case
  proof (cases "n < 32")
    case True
    then have "groups n = [char_of (n + 63)]" by (simp add: groups.simps [of n])
    moreover have "js_or r (js_shl (js_and (int n) 31) (int s)) = r + int n * 2 ^ s"
      using "1.prems" True by (intro shift_group) simp_all
    ultimately show ?thesis
      using True by (simp add: of_char_group Let_def)
  next
    case False
    let ?g = "n mod 32"
    let ?r = "r + int ?g * 2 ^ s"
    have gs: "groups n = char_of ((?g + 32) + 63) # groups (n div 32)"
      using False by (simp add: groups.simps [of n])
    have n: "int n = int ?g + 32 * int (n div 32)"
      by (metis mult.commute of_nat_add of_nat_mult of_nat_numeral mod_mult_div_eq mult.commute div_mult_mod_eq add.commute)
    have split: "r + int n * 2 ^ s = ?r + int (n div 32) * 2 ^ (s + 5)"
      by (subst n) (simp add: power_add algebra_simps)
    have hi: "32 * (2::int) ^ s \<le> int n * 2 ^ s"
      using False by (intro mult_right_mono) simp_all
    have s5: "s + 5 \<le> 30"
    proof (rule ccontr)
      assume "\<not> s + 5 \<le> 30"
      then have "31 \<le> s + 5" by simp
      then have "(2::int) ^ 31 \<le> 2 ^ (s + 5)" by (intro power_increasing) simp_all
      also have "\<dots> = 32 * 2 ^ s" by (simp add: power_add)
      finally show False using hi "1.prems"(1,4) by linarith
    qed
    have lo: "int ?g * 2 ^ s \<le> 31 * (2::int) ^ s"
      by (intro mult_right_mono) simp_all
    have r_nonneg: "0 \<le> ?r" using "1.prems"(1) by simp
    have "(2::int) ^ (s + 5) = 32 * 2 ^ s" by (simp add: power_add)
    then have r_less: "?r < 2 ^ (s + 5)"
      using lo "1.prems"(2) by linarith
    have rest_nonneg: "0 \<le> int (n div 32) * (2::int) ^ (s + 5)" by simp
    have r_small: "?r + int ?g * 0 < 2 ^ 31"
      using split rest_nonneg "1.prems"(4) by linarith
    have andg: "js_and (32 + int ?g) 31 = int ?g"
      by (simp add: js_and_def toInt32_id and_31 zmod_int)
    have andg': "js_and (int ?g) 31 = int ?g"
      by (simp add: js_and_def toInt32_id and_31 zmod_int)
    have step: "js_or r (js_shl (js_and (int ?g) 31) (int s)) = ?r"
      using "1.prems" s5 r_small by (intro shift_group) simp_all
    have ih: "decode_value (groups (n div 32) @ rest) (int (s + 5)) ?r
                = (?r + int (n div 32) * 2 ^ (s + 5), rest)"
      using False r_nonneg r_less s5 split "1.prems"(4)
      by (intro "1.IH") simp_all
    have b: "(of_char (char_of (?g + 32 + 63)) :: int) - 63 = 32 + int ?g"
      using of_char_group [of "?g + 32"] by simp
    have "decode_value (groups n @ rest) (int s) r
            = decode_value (groups (n div 32) @ rest) (int s + 5)
                (js_or r (js_shl (js_and (32 + int ?g) 31) (int s)))"
      unfolding gs by (simp only: append_Cons decode_value.simps b Let_def) simp
    also have "\<dots> = decode_value (groups (n div 32) @ rest) (int (s + 5)) ?r"
      using step by (simp only: andg andg') (simp add: add.commute)
    also note ih
    finally show ?thesis by (simp only: split)
  qed
qed


lemma delta_of_zigzag:
  assumes "- 1073741824 \<le> v" "v < 1073741824"
  shows "delta_of (int (zigzag v)) = v"
proof (cases "v < 0")
  case True
  then have z: "int (zigzag v) = - 2 * v - 1" by (simp add: zigzag_def)
  have w: "toInt32 (- 2 * v - 1) = - 2 * v - 1"
    using assms True by (intro toInt32_id) simp_all
  have odd: "(- 2 * v - 1) mod 2 = 1" by presburger
  have half: "(- 2 * v - 1) div 2 = - v - 1" by presburger
  have w2: "toInt32 (- v - 1) = - v - 1"
    using assms True by (intro toInt32_id) simp_all
  show ?thesis
    unfolding z delta_of_def js_and_def js_sar_def js_not_def
    using w w2 odd half
    by (simp add: toInt32_id and_1 drop_bit_eq_div not_int_def)
next
  case False
  then have z: "int (zigzag v) = 2 * v" by (simp add: zigzag_def)
  have w: "toInt32 (2 * v) = 2 * v"
    using assms False by (intro toInt32_id) simp_all
  show ?thesis
    unfolding z delta_of_def js_and_def js_sar_def js_not_def
    using w by (simp add: toInt32_id and_1 drop_bit_eq_div)
qed

lemma zigzag_bound:
  assumes "- 1073741824 \<le> v" "v < 1073741824"
  shows "int (zigzag v) < 2147483648"
proof -
  have "int (zigzag v) = (if v < 0 then - 2 * v - 1 else 2 * v)"
    by (simp add: zigzag_def)
  then show ?thesis using assms by (simp split: if_splits)
qed

lemma decode_value_encode_value:
  assumes "- 1073741824 \<le> v" "v < 1073741824"
  shows "decode_value (encode_value v @ rest) 0 0 = (int (zigzag v), rest)"
  using decode_value_groups [of 0 0 "zigzag v" rest] zigzag_bound [OF assms]
  by (simp add: encode_value_def)

lemma encode_value_nonempty: "encode_value v \<noteq> []"
  by (simp add: encode_value_def groups.simps [of "zigzag v"])

lemma decode_from_encode_from:
  assumes "list_all location_e5 ps" "location_e5 (prevLat, prevLng)"
  shows "decode_from (encode_from prevLat prevLng ps) prevLat prevLng = map degrees ps"
  using assms
proof (induction ps arbitrary: prevLat prevLng)
  case Nil
  show ?case by (subst decode_from.simps) simp
next
  case (Cons p ps)
  obtain la lo where p: "p = (la, lo)" by (cases p)
  have b: "\<bar>la\<bar> \<le> 9000000" "\<bar>lo\<bar> \<le> 18000000" "\<bar>prevLat\<bar> \<le> 9000000" "\<bar>prevLng\<bar> \<le> 18000000"
    using Cons.prems p by (simp_all add: location_e5_def)
  let ?rest = "encode_from la lo ps"
  have d1: "decode_value (encode_value (la - prevLat) @ encode_value (lo - prevLng) @ ?rest) 0 0
              = (int (zigzag (la - prevLat)), encode_value (lo - prevLng) @ ?rest)"
    using b by (intro decode_value_encode_value) linarith+
  have d2: "decode_value (encode_value (lo - prevLng) @ ?rest) 0 0
              = (int (zigzag (lo - prevLng)), ?rest)"
    using b by (intro decode_value_encode_value) linarith+
  have z1: "delta_of (int (zigzag (la - prevLat))) = la - prevLat"
    using b by (intro delta_of_zigzag) linarith+
  have z2: "delta_of (int (zigzag (lo - prevLng))) = lo - prevLng"
    using b by (intro delta_of_zigzag) linarith+
  have ih: "decode_from ?rest la lo = map degrees ps"
    using Cons.prems p by (intro Cons.IH) simp_all
  have ne: "encode_from prevLat prevLng (p # ps) \<noteq> []"
    using p encode_value_nonempty by simp
  show ?case
    using ne by (subst decode_from.simps) (simp add: p d1 d2 z1 z2 ih degrees_def)
qed

text \<open>
  C9. For every sequence of locations given at \<open>1e-5\<close> degree resolution (latitudes within
  90 degrees and longitudes within 180 degrees of zero, as every location is),
  \<open>decodePolyline\<close> applied to the encoding of the sequence returns the sequence itself:
  the cumulative latitudes and longitudes, in degrees, in order.
\<close>

theorem decodePolyline_inverts_encoding:
  assumes "list_all location_e5 ps"
  shows "decodePolyline (Some (encodePolyline ps)) = map degrees ps"
proof (cases ps)
  case Nil
  then show ?thesis by (simp add: decodePolyline_def encodePolyline_def)
next
  case (Cons p qs)
  have "decode_from (encode_from 0 0 ps) 0 0 = map degrees ps"
    using assms by (intro decode_from_encode_from) (simp_all add: location_e5_def)
  moreover have "encode_from 0 0 ps \<noteq> []"
    using Cons encode_value_nonempty by (cases p) simp
  ultimately show ?thesis
    by (simp add: decodePolyline_def encodePolyline_def)
qed


lemma encodePolyline_example:
  "encodePolyline [(3850000, -12020000), (4070000, -12095000), (4325200, -12645300)]
     = ''_p~iF~ps|U_ulLnnqC_mqNvxq`@''"
  apply (simp add: encodePolyline_def encode_value_def zigzag_def groups.simps)
  apply code_simp
  done

lemma decodePolyline_example:
  "decodePolyline (Some ''_p~iF~ps|U_ulLnnqC_mqNvxq`@'')
     = [\<lparr>lat = Number (385 / 10), lng = Number (- 1202 / 10)\<rparr>,
        \<lparr>lat = Number (407 / 10), lng = Number (- 12095 / 100)\<rparr>,
        \<lparr>lat = Number (43252 / 1000), lng = Number (- 126453 / 1000)\<rparr>]"
  by code_simp

theorem decodePolyline_inverts_encoding_witness:
  "list_all location_e5 [(3850000, -12020000), (4070000, -12095000), (4325200, -12645300)] \<and>
   decodePolyline (Some (encodePolyline [(3850000, -12020000), (4070000, -12095000), (4325200, -12645300)]))
     = [\<lparr>lat = Number (385 / 10), lng = Number (- 1202 / 10)\<rparr>,
        \<lparr>lat = Number (407 / 10), lng = Number (- 12095 / 100)\<rparr>,
        \<lparr>lat = Number (43252 / 1000), lng = Number (- 126453 / 1000)\<rparr>]"
proof -
  have v: "list_all location_e5 [(3850000, -12020000), (4070000, -12095000), (4325200, -12645300)]"
    by (simp add: location_e5_def)
  have m: "map degrees [(3850000, -12020000), (4070000, -12095000), (4325200, -12645300)]
     = [\<lparr>lat = Number (385 / 10), lng = Number (- 1202 / 10)\<rparr>,
        \<lparr>lat = Number (407 / 10), lng = Number (- 12095 / 100)\<rparr>,
        \<lparr>lat = Number (43252 / 1000), lng = Number (- 126453 / 1000)\<rparr>]"
    by (simp add: degrees_def)
  show ?thesis
    using v decodePolyline_inverts_encoding [OF v] by (simp only: m simp_thms)
qed

subsection \<open>The path of a route\<close>

lemma ends_and_middle:
  assumes "2 \<le> length xs"
  shows "[xs ! 0] @ butlast (tl xs) @ [xs ! (length xs - 1)] = xs"
proof -
  obtain x ys where xs: "xs = x # ys" using assms by (cases xs) auto
  then have ys: "ys \<noteq> []" using assms by auto
  then have "butlast ys @ [last ys] = ys" by simp
  moreover have "xs ! (length xs - 1) = last ys"
    using xs ys by (simp add: last_conv_nth)
  ultimately show ?thesis using xs by simp
qed

lemma straight_line_stops:
  assumes "2 \<le> length stopsArr"
  shows "straight_line (coords (stopsArr ! 0)) (map coords (butlast (tl stopsArr)))
           (coords (stopsArr ! (length stopsArr - 1))) = map point_of stopsArr"
proof -
  have "map coords ([stopsArr ! 0] @ butlast (tl stopsArr) @ [stopsArr ! (length stopsArr - 1)])
          = map coords stopsArr"
    by (simp only: ends_and_middle [OF assms])
  then have "[coords (stopsArr ! 0)] @ map coords (butlast (tl stopsArr))
               @ [coords (stopsArr ! (length stopsArr - 1))] = map coords stopsArr"
    by simp
  moreover have "map point_of (map coords stopsArr) = map point_of stopsArr"
    by (simp add: point_of_def coords_def)
  ultimately show ?thesis
    unfolding straight_line_def by (simp only:)
qed

lemma getRoutePath_fallback:
  assumes "GOOGLE_MAPS_KEY = None \<or> \<not> fst (checkAndIncrementGoogleUsage today budget)
             \<or> no_route (directions origin destination waypoints)"
  shows "fst (getRoutePath GOOGLE_MAPS_KEY directions today origin destination waypoints budget)
           = straight_line origin waypoints destination"
  using assms
  by (auto simp: getRoutePath_def no_route_def
      split: prod.splits bool.splits directions_reply.splits option.splits)

text \<open>
  C5. \<open>buildForStops\<close> returns the empty path for no stops and the one point for one stop.
  For two or more stops, when no key is configured, the daily budget is used up, or the
  Directions request fails or carries no route, it returns exactly the stops in their order,
  as points, with nothing added.
\<close>

theorem buildForStops_paths:
  "buildForStops GOOGLE_MAPS_KEY directions today [] budget = ([], budget) \<and>
   buildForStops GOOGLE_MAPS_KEY directions today [s] budget = ([point_of s], budget) \<and>
   (2 \<le> length stopsArr \<and>
    (GOOGLE_MAPS_KEY = None \<or> \<not> fst (checkAndIncrementGoogleUsage today budget) \<or>
     no_route (directions (coords (stopsArr ! 0)) (coords (stopsArr ! (length stopsArr - 1)))
                 (map coords (butlast (tl stopsArr)))))
    \<longrightarrow> fst (buildForStops GOOGLE_MAPS_KEY directions today stopsArr budget)
          = map point_of stopsArr)"
proof (intro conjI impI)
  show "buildForStops GOOGLE_MAPS_KEY directions today [] budget = ([], budget)"
    by (simp add: buildForStops_def)
  show "buildForStops GOOGLE_MAPS_KEY directions today [s] budget = ([point_of s], budget)"
    by (simp add: buildForStops_def)
next
  assume a: "2 \<le> length stopsArr \<and>
    (GOOGLE_MAPS_KEY = None \<or> \<not> fst (checkAndIncrementGoogleUsage today budget) \<or>
     no_route (directions (coords (stopsArr ! 0)) (coords (stopsArr ! (length stopsArr - 1)))
                 (map coords (butlast (tl stopsArr)))))"
  then have len: "2 \<le> length stopsArr" by simp
  have "fst (buildForStops GOOGLE_MAPS_KEY directions today stopsArr budget)
          = straight_line (coords (stopsArr ! 0)) (map coords (butlast (tl stopsArr)))
              (coords (stopsArr ! (length stopsArr - 1)))"
  proof -
    have ne: "length stopsArr \<noteq> 0" "length stopsArr \<noteq> 1" using len by auto
    have "buildForStops GOOGLE_MAPS_KEY directions today stopsArr budget
            = getRoutePath GOOGLE_MAPS_KEY directions today (coords (stopsArr ! 0))
                (coords (stopsArr ! (length stopsArr - 1))) (map coords (butlast (tl stopsArr)))
                budget"
      using ne by (simp add: buildForStops_def Let_def)
    moreover have "GOOGLE_MAPS_KEY = None \<or> \<not> fst (checkAndIncrementGoogleUsage today budget) \<or>
       no_route (directions (coords (stopsArr ! 0)) (coords (stopsArr ! (length stopsArr - 1)))
                 (map coords (butlast (tl stopsArr))))"
      using a by simp
    ultimately show ?thesis
      by (simp only: getRoutePath_fallback)
  qed
  then show "fst (buildForStops GOOGLE_MAPS_KEY directions today stopsArr budget)
          = map point_of stopsArr"
    by (simp only: straight_line_stops [OF len])
qed

theorem buildForStops_paths_witness:
  "fst (buildForStops None offline ''2024-01-01'' [stop_at 0 0 MORNING 1, stop_at 0 1 MORNING 2] usage0)
     = [\<lparr>lat = Number 0, lng = Number 0\<rparr>, \<lparr>lat = Number 0, lng = Number 1\<rparr>]"
  using buildForStops_paths [of None offline "''2024-01-01''" usage0 "stop_at 0 0 MORNING 1"
      "[stop_at 0 0 MORNING 1, stop_at 0 1 MORNING 2]"]
  by (simp add: point_of_def stop_at_def)


text \<open>Without a key, every path is the list of its stops, for the two periods of a bus.\<close>

lemma buildForStops_offline:
  "buildForStops None directions today stopsArr budget = (map point_of stopsArr, budget)"
proof -
  consider "stopsArr = []" | s where "stopsArr = [s]" | "2 \<le> length stopsArr"
  proof (cases stopsArr)
    case Nil
    then show ?thesis using that(1) by simp
  next
    case (Cons a rest)
    then show ?thesis using that(2,3) by (cases rest) simp_all
  qed
  then show ?thesis
  proof cases
    case 1
    then show ?thesis by (simp add: buildForStops_def)
  next
    case 2
    then show ?thesis by (simp add: buildForStops_def)
  next
    case 3
    then have ne: "length stopsArr \<noteq> 0" "length stopsArr \<noteq> 1" by auto
    show ?thesis
      using ne straight_line_stops [OF 3]
      by (simp add: buildForStops_def getRoutePath_def Let_def)
  qed
qed

lemma buildRouteForBus_offline:
  "buildRouteForBus None directions today stops budget =
     (\<lparr>morningRoute = map point_of (sort_key order (filter (\<lambda>s. period s = MORNING) stops)),
       eveningRoute = map point_of (sort_key order (filter (\<lambda>s. period s = EVENING) stops))\<rparr>,
      budget)"
  by (simp add: buildRouteForBus_def buildForStops_offline Let_def)


subsection \<open>The intersection test\<close>

lemma vertex_distances_Cons:
  "vertex_distances g u (p # ps) =
     (case vertex_distance g u p of None \<Rightarrow> vertex_distances g u ps
      | Some d \<Rightarrow> d # vertex_distances g u ps)"
  by (simp add: vertex_distances_def map_filter_simps split: option.splits)

lemma vertex_distances_append:
  "vertex_distances g u (xs @ ys) = vertex_distances g u xs @ vertex_distances g u ys"
  by (simp add: vertex_distances_def map_filter_def)

lemma vertex_distance_None: "vertex_distance g u p = None \<longleftrightarrow> \<not> numeric p"
  by (auto simp: vertex_distance_def numeric_def split: number.splits)

lemma set_vertex_distances:
  "set (vertex_distances g u ps) = {d. \<exists>p\<in>set ps. vertex_distance g u p = Some d}"
  by (force simp: vertex_distances_def map_filter_def)

lemma intersects_loop_iff:
  "intersects_loop g (lat u, lng u) r ps \<longleftrightarrow> (\<exists>d\<in>set (vertex_distances g u ps). d \<le> r)"
proof (induction ps)
  case Nil
  show ?case by (simp add: vertex_distances_def map_filter_simps)
next
  case (Cons p ps)
  show ?case
  proof (cases "vertex_distance g u p")
    case None
    then have "intersects_loop g (lat u, lng u) r (p # ps) = intersects_loop g (lat u, lng u) r ps"
      by (auto simp: vertex_distance_def split: number.splits)
    with None Cons show ?thesis by (simp add: vertex_distances_Cons)
  next
    case (Some d)
    then have "intersects_loop g (lat u, lng u) r (p # ps)
                 = (d \<le> r \<or> intersects_loop g (lat u, lng u) r ps)"
      by (auto simp: vertex_distance_def Let_def split: number.splits)
    with Some Cons show ?thesis by (auto simp: vertex_distances_Cons)
  qed
qed

lemma min_loop_fst:
  "fst (min_loop g (lat u, lng u) ps i (m, j)) =
     (let ds = vertex_distances g u ps
      in if ds = [] then m
         else Some (case m of None \<Rightarrow> Min (set ds) | Some x \<Rightarrow> min x (Min (set ds))))"
proof (induction ps arbitrary: i m j)
  case Nil
  show ?case by (simp add: vertex_distances_def map_filter_simps)
next
  case (Cons p ps)
  show ?case
  proof (cases "vertex_distance g u p")
    case None
    then have "min_loop g (lat u, lng u) (p # ps) i (m, j) = min_loop g (lat u, lng u) ps (i + 1) (m, j)"
      by (auto simp: vertex_distance_def split: number.splits)
    with None Cons [of "i + 1" m j] show ?thesis
      by (simp add: vertex_distances_Cons)
  next
    case (Some d)
    let ?ds = "vertex_distances g u ps"
    have ds: "vertex_distances g u (p # ps) = d # ?ds"
      using Some by (simp add: vertex_distances_Cons)
    have Min_ds: "Min (set (d # ?ds)) = (if ?ds = [] then d else min d (Min (set ?ds)))"
      by (simp add: Min_insert)
    show ?thesis
    proof (cases "case m of None \<Rightarrow> True | Some x \<Rightarrow> d < x")
      case True
      then have "min_loop g (lat u, lng u) (p # ps) i (m, j)
                   = min_loop g (lat u, lng u) ps (i + 1) (Some d, i)"
        using Some by (auto simp: vertex_distance_def Let_def split: number.splits)
      then show ?thesis
        using True Cons [of "i + 1" "Some d" i] ds Min_ds
        by (auto simp: Let_def min_def split: option.splits)
    next
      case False
      then have "min_loop g (lat u, lng u) (p # ps) i (m, j)
                   = min_loop g (lat u, lng u) ps (i + 1) (m, j)"
        using Some by (auto simp: vertex_distance_def Let_def split: number.splits)
      then show ?thesis
        using False Cons [of "i + 1" m j] ds Min_ds
        by (auto simp: Let_def min_def split: option.splits)
    qed
  qed
qed

lemma getMinDistanceAlongPath_min:
  "fst (getMinDistanceAlongPath g u (Some ps)) = min_vertex_distance g u ps"
  by (simp add: getMinDistanceAlongPath_def min_loop_fst min_vertex_distance_def Let_def)

lemma min_vertex_distance_le_iff:
  "(\<exists>m. min_vertex_distance g u ps = Some m \<and> m \<le> r) \<longleftrightarrow>
   (\<exists>d\<in>set (vertex_distances g u ps). d \<le> r)"
proof (cases "vertex_distances g u ps = []")
  case True
  then show ?thesis by (simp add: min_vertex_distance_def)
next
  case False
  then have "Min (set (vertex_distances g u ps)) \<le> r \<longleftrightarrow> (\<exists>d\<in>set (vertex_distances g u ps). d \<le> r)"
    by (intro Min_le_iff) simp_all
  with False show ?thesis by (simp add: min_vertex_distance_def)
qed

lemma isPathIntersectsCircle_iff:
  "isPathIntersectsCircle g u (Some ps) r \<longleftrightarrow> (\<exists>d\<in>set (vertex_distances g u ps). d \<le> r)"
  by (cases ps) (simp_all add: isPathIntersectsCircle_def intersects_loop_iff vertex_distances_def
      map_filter_simps del: intersects_loop.simps)

lemma checkRouteStops_intersects:
  assumes "2 \<le> length stopsArr"
  shows "intersects (fst (checkRouteStops g key directions today cached u r stopsArr routeType usage))
           \<longleftrightarrow> (\<exists>m. min_vertex_distance g u
                        (routePath (fst (checkRouteStops g key directions today cached u r stopsArr
                           routeType usage))) = Some m \<and> m \<le> r)"
proof -
  have ne: "length stopsArr \<noteq> 0" "length stopsArr \<noteq> 1" using assms by auto
  show ?thesis
    unfolding checkRouteStops_def Let_def split_beta
    using ne by (simp add: getMinDistanceAlongPath_min split: option.splits)
qed


text \<open>
  C1. The decision is point-wise. \<open>isPathIntersectsCircle\<close> holds exactly when the least
  distance from the user to a vertex of the path is at most the radius, which is to say
  when some vertex lies within the radius; no segment between vertices is looked at. The
  decision \<open>checkRouteStops\<close> takes for a route of two or more stops is the same test on the
  path it resolved, and \<open>getMinDistanceAlongPath\<close> returns that least distance.
\<close>

theorem intersection_is_pointwise:
  "(isPathIntersectsCircle getDistance userLocation (Some path) radiusMeters \<longleftrightarrow>
      (\<exists>m. min_vertex_distance getDistance userLocation path = Some m \<and> m \<le> radiusMeters)) \<and>
   ((\<exists>m. min_vertex_distance getDistance userLocation path = Some m \<and> m \<le> radiusMeters) \<longleftrightarrow>
      (\<exists>p\<in>set path. \<exists>d. vertex_distance getDistance userLocation p = Some d \<and> d \<le> radiusMeters)) \<and>
   fst (getMinDistanceAlongPath getDistance userLocation (Some path))
     = min_vertex_distance getDistance userLocation path \<and>
   (2 \<le> length stopsArr \<longrightarrow>
      (intersects (fst (checkRouteStops getDistance GOOGLE_MAPS_KEY directions today cached
                          userLocation radiusMeters stopsArr routeType budget)) \<longleftrightarrow>
       (\<exists>m. min_vertex_distance getDistance userLocation
               (routePath (fst (checkRouteStops getDistance GOOGLE_MAPS_KEY directions today cached
                                  userLocation radiusMeters stopsArr routeType budget)))
               = Some m \<and> m \<le> radiusMeters)))"
proof (intro conjI impI)
  show "isPathIntersectsCircle getDistance userLocation (Some path) radiusMeters \<longleftrightarrow>
      (\<exists>m. min_vertex_distance getDistance userLocation path = Some m \<and> m \<le> radiusMeters)"
    by (simp only: isPathIntersectsCircle_iff min_vertex_distance_le_iff)
  show "(\<exists>m. min_vertex_distance getDistance userLocation path = Some m \<and> m \<le> radiusMeters) \<longleftrightarrow>
      (\<exists>p\<in>set path. \<exists>d. vertex_distance getDistance userLocation p = Some d \<and> d \<le> radiusMeters)"
    unfolding min_vertex_distance_le_iff set_vertex_distances by blast
  show "fst (getMinDistanceAlongPath getDistance userLocation (Some path))
     = min_vertex_distance getDistance userLocation path"
    by (rule getMinDistanceAlongPath_min)
next
  assume "2 \<le> length stopsArr"
  then show "intersects (fst (checkRouteStops getDistance GOOGLE_MAPS_KEY directions today cached
                          userLocation radiusMeters stopsArr routeType budget)) \<longleftrightarrow>
       (\<exists>m. min_vertex_distance getDistance userLocation
               (routePath (fst (checkRouteStops getDistance GOOGLE_MAPS_KEY directions today cached
                                  userLocation radiusMeters stopsArr routeType budget)))
               = Some m \<and> m \<le> radiusMeters)"
    by (rule checkRouteStops_intersects)
qed

lemma min_vertex_distance_example:
  "min_vertex_distance grid_distance \<lparr>lat = 0, lng = 0\<rparr>
     [\<lparr>lat = Number 3, lng = Number 4\<rparr>, \<lparr>lat = NaN, lng = Number 0\<rparr>, \<lparr>lat = Number 1, lng = Number 1\<rparr>]
     = Some 2"
  by (simp add: min_vertex_distance_def vertex_distances_def map_filter_simps vertex_distance_def
      grid_distance_def)

theorem intersection_is_pointwise_witness:
  "isPathIntersectsCircle grid_distance \<lparr>lat = 0, lng = 0\<rparr>
     (Some [\<lparr>lat = Number 3, lng = Number 4\<rparr>, \<lparr>lat = NaN, lng = Number 0\<rparr>,
            \<lparr>lat = Number 1, lng = Number 1\<rparr>]) 2 \<and>
   \<not> isPathIntersectsCircle grid_distance \<lparr>lat = 0, lng = 0\<rparr>
     (Some [\<lparr>lat = Number 3, lng = Number 4\<rparr>, \<lparr>lat = NaN, lng = Number 0\<rparr>,
            \<lparr>lat = Number 1, lng = Number 1\<rparr>]) (3 / 2) \<and>
   intersects (fst (checkRouteStops grid_distance None offline ''2024-01-01'' None \<lparr>lat = 0, lng = 0\<rparr> 2
                      [stop_at 3 4 MORNING 1, stop_at 1 1 MORNING 2] MORNING usage0))"
proof -
  let ?u = "\<lparr>lat = 0, lng = 0\<rparr> :: real latlng"
  let ?path = "[\<lparr>lat = Number 3, lng = Number 4\<rparr>, \<lparr>lat = NaN, lng = Number 0\<rparr>,
            \<lparr>lat = Number 1, lng = Number 1\<rparr>]"
  let ?stops = "[stop_at 3 4 MORNING 1, stop_at 1 1 MORNING 2]"
  have p: "routePath (fst (checkRouteStops grid_distance None offline ''2024-01-01'' None ?u 2
                      ?stops MORNING usage0))
             = [\<lparr>lat = Number 3, lng = Number 4\<rparr>, \<lparr>lat = Number 1, lng = Number 1\<rparr>]"
    by (simp add: checkRouteStops_def getRoutePath_def straight_line_def point_of_def coords_def
        stop_at_def Let_def split_beta)
  have m: "min_vertex_distance grid_distance ?u
             [\<lparr>lat = Number 3, lng = Number 4\<rparr>, \<lparr>lat = Number 1, lng = Number 1\<rparr>] = Some 2"
    by (simp add: min_vertex_distance_def vertex_distances_def map_filter_simps vertex_distance_def
        grid_distance_def)
  show ?thesis
    using intersection_is_pointwise [of grid_distance ?u ?path 2 ?stops None offline "''2024-01-01''"
        None MORNING usage0]
      intersection_is_pointwise [of grid_distance ?u ?path "3 / 2" ?stops None offline "''2024-01-01''"
        None MORNING usage0]
      min_vertex_distance_example p m
    by simp
qed

lemma intersects_insert_invalid:
  assumes "\<not> numeric p"
  shows "vertex_distances g u (xs @ p # ys) = vertex_distances g u (xs @ ys)"
  using assms vertex_distance_None [of g u p]
  by (simp add: vertex_distances_append vertex_distances_Cons)

lemma intersects_entries_objects:
  assumes "Nullish \<notin> set ps"
  shows "intersects_entries g parse c r ps = Inr (intersects_loop g c r (map (converted parse) ps))"
  using assms
proof (induction ps)
  case Nil
  show ?case by simp
next
  case (Cons e ps)
  then obtain la lo where e: "e = Entry la lo" by (cases e) auto
  show ?case
    using Cons e by (auto simp: Let_def split: number.splits)
qed

lemma min_entries_objects:
  assumes "Nullish \<notin> set ps"
  shows "min_entries g parse c ps i acc = Inr (min_loop g c (map (converted parse) ps) i acc)"
  using assms
proof (induction ps arbitrary: i acc)
  case Nil
  show ?case by (cases acc) simp
next
  case (Cons e ps)
  then obtain la lo where e: "e = Entry la lo" by (cases e) auto
  obtain m j where acc: "acc = (m, j)" by (cases acc)
  show ?case
    using Cons e acc by (auto simp: Let_def split: number.splits)
qed

lemma intersects_entries_skip:
  assumes "skipped parse e"
  shows "intersects_entries g parse c r (xs @ e # ys) = intersects_entries g parse c r (xs @ ys)"
proof -
  obtain la lo where e: "e = Entry la lo" using assms by (cases e) auto
  have here: "intersects_entries g parse c r (e # ys) = intersects_entries g parse c r ys"
    using assms e by (auto split: number.splits)
  show ?thesis
  proof (induction xs)
    case Nil
    show ?case using here by simp
  next
    case (Cons x xs)
    show ?case
    proof (cases x)
      case Nullish
      then show ?thesis by simp
    next
      case (Entry a b)
      then show ?thesis using Cons by (simp add: Let_def split: number.splits)
    qed
  qed
qed

lemma min_entries_nullish:
  assumes "Nullish \<in> set ps"
  shows "min_entries g parse c ps i acc = Inl TypeError"
  using assms
proof (induction ps arbitrary: i acc)
  case Nil
  then show ?case by simp
next
  case (Cons e ps)
  obtain m j where acc: "acc = (m, j)" by (cases acc)
  show ?case
  proof (cases e)
    case Nullish
    then show ?thesis using acc by simp
  next
    case (Entry la lo)
    then have "Nullish \<in> set ps" using Cons.prems by auto
    then show ?thesis
      using Cons.IH Entry acc by (simp add: Let_def split: number.splits)
  qed
qed

lemma skipped_converted: "skipped parse e \<Longrightarrow> \<not> numeric (converted parse e)"
  by (cases e) (auto simp: numeric_def)

lemma skipped_not_nullish: "skipped parse e \<Longrightarrow> e \<noteq> Nullish"
  by (cases e) auto

lemma min_entries_skip:
  fixes u :: "real latlng"
  assumes "skipped parse e"
  shows "map_sum id fst (min_entries g parse (lat u, lng u) (xs @ e # ys) i (m, j))
           = map_sum id fst (min_entries g parse (lat u, lng u) (xs @ ys) i (m, j))"
proof (cases "Nullish \<in> set (xs @ ys)")
  case True
  then have "Nullish \<in> set (xs @ e # ys)" by auto
  then show ?thesis using True by (simp only: min_entries_nullish)
next
  case False
  then have clean: "Nullish \<notin> set (xs @ e # ys)"
    using skipped_not_nullish [OF assms] by auto
  have "vertex_distances g u (map (converted parse) xs @ converted parse e # map (converted parse) ys)
          = vertex_distances g u (map (converted parse) xs @ map (converted parse) ys)"
    using skipped_converted [OF assms] by (rule intersects_insert_invalid)
  then have "fst (min_loop g (lat u, lng u) (map (converted parse) (xs @ e # ys)) i (m, j))
               = fst (min_loop g (lat u, lng u) (map (converted parse) (xs @ ys)) i (m, j))"
    by (simp add: min_loop_fst)
  then show ?thesis
    by (simp add: min_entries_objects [OF False] min_entries_objects [OF clean])
qed

lemma all_skipped:
  assumes "list_all (skipped parse) path"
  shows "Nullish \<notin> set path \<and> list_all (\<lambda>q. \<not> numeric q) (map (converted parse) path)"
  using assms
  by (induction path) (auto simp: skipped_converted dest: skipped_not_nullish)

lemma isPathIntersectsCircle_js_objects:
  assumes "Nullish \<notin> set path"
  shows "isPathIntersectsCircle_js g parse u (Some path) r
           = Inr (isPathIntersectsCircle g u (Some (map (converted parse) path)) r)"
  using assms
  by (simp add: isPathIntersectsCircle_js_def isPathIntersectsCircle_def intersects_entries_objects)

lemma getMinDistanceAlongPath_js_objects:
  assumes "Nullish \<notin> set path"
  shows "getMinDistanceAlongPath_js g parse u (Some path)
           = Inr (getMinDistanceAlongPath g u (Some (map (converted parse) path)))"
  using assms
  by (simp add: getMinDistanceAlongPath_js_def getMinDistanceAlongPath_def min_entries_objects)

text \<open>
  C10, as the code has it. A missing or empty path never intersects, and has no least
  distance. An entry of which \<open>Number(lat)\<close> or \<open>Number(lng)\<close> is \<open>NaN\<close> is skipped: with
  or without it the answer and the least distance are the same, and a path of such entries
  only is not reported as intersecting. On a path whose entries are all objects the two
  functions return, without an error, what they compute from the converted coordinates.
\<close>

theorem intersection_skips_nan:
  "isPathIntersectsCircle_js getDistance StringToNumber userLocation None radiusMeters = Inr False \<and>
   isPathIntersectsCircle_js getDistance StringToNumber userLocation (Some []) radiusMeters = Inr False \<and>
   getMinDistanceAlongPath_js getDistance StringToNumber userLocation None = Inr (None, - 1) \<and>
   getMinDistanceAlongPath_js getDistance StringToNumber userLocation (Some []) = Inr (None, - 1) \<and>
   (skipped StringToNumber e \<longrightarrow>
      isPathIntersectsCircle_js getDistance StringToNumber userLocation (Some (xs @ e # ys)) radiusMeters
        = isPathIntersectsCircle_js getDistance StringToNumber userLocation (Some (xs @ ys)) radiusMeters \<and>
      map_sum id fst (getMinDistanceAlongPath_js getDistance StringToNumber userLocation (Some (xs @ e # ys)))
        = map_sum id fst (getMinDistanceAlongPath_js getDistance StringToNumber userLocation (Some (xs @ ys)))) \<and>
   (list_all (skipped StringToNumber) path \<longrightarrow>
      isPathIntersectsCircle_js getDistance StringToNumber userLocation (Some path) radiusMeters = Inr False \<and>
      map_sum id fst (getMinDistanceAlongPath_js getDistance StringToNumber userLocation (Some path))
        = Inr None) \<and>
   (Nullish \<notin> set path \<longrightarrow>
      isPathIntersectsCircle_js getDistance StringToNumber userLocation (Some path) radiusMeters
        = Inr (isPathIntersectsCircle getDistance userLocation
                 (Some (map (converted StringToNumber) path)) radiusMeters) \<and>
      getMinDistanceAlongPath_js getDistance StringToNumber userLocation (Some path)
        = Inr (getMinDistanceAlongPath getDistance userLocation
                 (Some (map (converted StringToNumber) path))))"
proof (intro conjI impI)
  show "isPathIntersectsCircle_js getDistance StringToNumber userLocation None radiusMeters = Inr False"
    by (simp add: isPathIntersectsCircle_js_def)
  show "isPathIntersectsCircle_js getDistance StringToNumber userLocation (Some []) radiusMeters = Inr False"
    by (simp add: isPathIntersectsCircle_js_def)
  show "getMinDistanceAlongPath_js getDistance StringToNumber userLocation None = Inr (None, - 1)"
    by (simp add: getMinDistanceAlongPath_js_def)
  show "getMinDistanceAlongPath_js getDistance StringToNumber userLocation (Some []) = Inr (None, - 1)"
    by (simp add: getMinDistanceAlongPath_js_def)
next
  assume s: "skipped StringToNumber e"
  have one: "intersects_entries getDistance StringToNumber (lat userLocation, lng userLocation)
               radiusMeters [e] = Inr False"
    using intersects_entries_skip [OF s, of getDistance _ radiusMeters "[]" "[]"] by simp
  show "isPathIntersectsCircle_js getDistance StringToNumber userLocation (Some (xs @ e # ys)) radiusMeters
        = isPathIntersectsCircle_js getDistance StringToNumber userLocation (Some (xs @ ys)) radiusMeters"
    using intersects_entries_skip [OF s, of getDistance _ radiusMeters xs ys] one
    by (auto simp: isPathIntersectsCircle_js_def)
  show "map_sum id fst (getMinDistanceAlongPath_js getDistance StringToNumber userLocation (Some (xs @ e # ys)))
        = map_sum id fst (getMinDistanceAlongPath_js getDistance StringToNumber userLocation (Some (xs @ ys)))"
    using min_entries_skip [OF s] by (simp add: getMinDistanceAlongPath_js_def)
next
  assume a: "list_all (skipped StringToNumber) path"
  have clean: "Nullish \<notin> set path"
    and invalid: "list_all (\<lambda>q. \<not> numeric q) (map (converted StringToNumber) path)"
    using all_skipped [OF a] by simp_all
  have none: "vertex_distances getDistance userLocation (map (converted StringToNumber) path) = []"
    using invalid
  proof (induction path)
    case Nil
    show ?case by (simp add: vertex_distances_def map_filter_simps)
  next
    case (Cons q path)
    then have "vertex_distance getDistance userLocation (converted StringToNumber q) = None"
      by (simp add: vertex_distance_None)
    with Cons show ?case by (simp add: vertex_distances_Cons)
  qed
  show "isPathIntersectsCircle_js getDistance StringToNumber userLocation (Some path) radiusMeters = Inr False"
    using none by (simp add: isPathIntersectsCircle_js_objects [OF clean] isPathIntersectsCircle_iff)
  show "map_sum id fst (getMinDistanceAlongPath_js getDistance StringToNumber userLocation (Some path))
        = Inr None"
    using none
    by (simp add: getMinDistanceAlongPath_js_objects [OF clean] getMinDistanceAlongPath_min
        min_vertex_distance_def)
next
  assume clean: "Nullish \<notin> set path"
  show "isPathIntersectsCircle_js getDistance StringToNumber userLocation (Some path) radiusMeters
        = Inr (isPathIntersectsCircle getDistance userLocation
                 (Some (map (converted StringToNumber) path)) radiusMeters)"
    by (rule isPathIntersectsCircle_js_objects [OF clean])
  show "getMinDistanceAlongPath_js getDistance StringToNumber userLocation (Some path)
        = Inr (getMinDistanceAlongPath getDistance userLocation
                 (Some (map (converted StringToNumber) path)))"
    by (rule getMinDistanceAlongPath_js_objects [OF clean])
qed

theorem intersection_skips_nan_witness:
  "skipped blank_or_NaN (Entry JUndefined (JNumber (Number 0))) \<and>
   isPathIntersectsCircle_js grid_distance blank_or_NaN \<lparr>lat = 0, lng = 0\<rparr>
     (Some [Entry (JNumber (Number 3)) (JNumber (Number 4)), Entry JUndefined (JNumber (Number 0))]) 1
     = isPathIntersectsCircle_js grid_distance blank_or_NaN \<lparr>lat = 0, lng = 0\<rparr>
         (Some [Entry (JNumber (Number 3)) (JNumber (Number 4))]) 1 \<and>
   isPathIntersectsCircle_js grid_distance blank_or_NaN \<lparr>lat = 0, lng = 0\<rparr>
     (Some [Entry JUndefined (JNumber (Number 0)), Entry (JNumber (Number 0)) (JNumber NaN)]) 1
     = Inr False \<and>
   map_sum id fst (getMinDistanceAlongPath_js grid_distance blank_or_NaN \<lparr>lat = 0, lng = 0\<rparr>
     (Some [Entry JUndefined (JNumber (Number 0)), Entry (JNumber (Number 0)) (JNumber NaN)]))
     = Inr None"
proof -
  have s: "skipped blank_or_NaN (Entry JUndefined (JNumber (Number 0)))"
    by simp
  have l: "list_all (skipped blank_or_NaN)
             [Entry JUndefined (JNumber (Number 0)), Entry (JNumber (Number 0)) (JNumber NaN)]"
    by simp
  have a: "[Entry (JNumber (Number 3)) (JNumber (Number 4))] @ Entry JUndefined (JNumber (Number 0)) # []
             = [Entry (JNumber (Number 3)) (JNumber (Number 4)), Entry JUndefined (JNumber (Number 0))]"
    and b: "[Entry (JNumber (Number 3)) (JNumber (Number 4))] @ []
             = [Entry (JNumber (Number 3)) (JNumber (Number 4))]"
    by simp_all
  show ?thesis
    using intersection_skips_nan [of grid_distance blank_or_NaN "\<lparr>lat = 0, lng = 0\<rparr>" 1
      "Entry JUndefined (JNumber (Number 0))" "[Entry (JNumber (Number 3)) (JNumber (Number 4))]" "[]"
      "[Entry JUndefined (JNumber (Number 0)), Entry (JNumber (Number 0)) (JNumber NaN)]"]
      s l
    unfolding a b by blast
qed

text \<open>
  The claim as written fails on inputs the functions can be given: an entry that is
  \<open>null\<close> throws, and a coordinate \<open>null\<close>, \<open>''\<close>, \<open>false\<close> or \<open>[]\<close> is not a number,
  yet it is converted to 0 and the entry is counted, here as a point at the user's own place.
\<close>

theorem intersection_not_total_counterexample:
  "isPathIntersectsCircle_js grid_distance blank_or_NaN \<lparr>lat = 0, lng = 0\<rparr> (Some [Nullish]) 1
     = Inl TypeError \<and>
   isPathIntersectsCircle_js grid_distance blank_or_NaN \<lparr>lat = 0, lng = 0\<rparr> (Some [Entry JNull JNull]) 1
     = Inr True \<and>
   getMinDistanceAlongPath_js grid_distance blank_or_NaN \<lparr>lat = 0, lng = 0\<rparr> (Some [Entry JNull JNull])
     = Inr (Some 0, 0) \<and>
   isPathIntersectsCircle_js grid_distance blank_or_NaN \<lparr>lat = 0, lng = 0\<rparr>
     (Some [Entry (JString []) (JBoolean False)]) 1 = Inr True \<and>
   isPathIntersectsCircle_js grid_distance blank_or_NaN \<lparr>lat = 0, lng = 0\<rparr>
     (Some [Entry (JObject []) (JObject [])]) 1 = Inr True"
  by (simp add: isPathIntersectsCircle_js_def getMinDistanceAlongPath_js_def grid_distance_def
      blank_or_NaN_def trim_def)

text \<open>Whatever the distance function: a \<open>null\<close> coordinate is the coordinate 0.\<close>

lemma null_coordinates_counted:
  "getMinDistanceAlongPath_js g parse u (Some [Entry JNull JNull])
     = Inr (Some (g (0, 0) (lat u, lng u)), 0)"
  by (simp add: getMinDistanceAlongPath_js_def)

subsection \<open>Geocoding\<close>

lemma nominatimGeocode_cached:
  assumes "fst (nominatimGeocode web s st) = Returned (Some r)"
  shows "geocodeCache (snd (nominatimGeocode web s st)) (cache_key s) = Some r"
  using assms
  by (auto simp: nominatimGeocode_def Let_def
      split: http.splits option.splits list.splits place.splits)

lemma geocodeLocation_cached:
  assumes "fst (geocodeLocation k env web today s st) = Returned (Some r)"
  shows "geocodeCache (snd (geocodeLocation k env web today s st)) (cache_key s) = Some r"
proof (cases "s = [] \<or> geocodeCache st (cache_key s) \<noteq> None")
  case True
  then show ?thesis using assms by (auto simp: geocodeLocation_def Let_def)
next
  case False
  then have miss: "s \<noteq> []" "geocodeCache st (cache_key s) = None" by auto
  show ?thesis
  proof (cases "k = None")
    case True
    then have "geocodeLocation k env web today s st = nominatimGeocode web s st"
      using miss by (simp add: geocodeLocation_def Let_def)
    then show ?thesis using assms nominatimGeocode_cached by simp
  next
    case False
    then obtain gkey where k: "k = Some gkey" by auto
    obtain ok usage where u: "checkAndIncrementGoogleUsage today (googleUsage st) = (ok, usage)"
      by (cases "checkAndIncrementGoogleUsage today (googleUsage st)")
    let ?st = "st\<lparr>googleUsage := usage,
                   requests := requests st @ [GoogleGeocode (geocode_request env s)]\<rparr>"
    show ?thesis
    proof (cases "google_geocode web (geocode_request env s)")
      case Failed
      then show ?thesis using assms miss k u
        by (cases ok) (simp_all add: geocodeLocation_def Let_def)
    next
      case Unparsable
      then show ?thesis using assms miss k u
        by (cases ok) (simp_all add: geocodeLocation_def Let_def)
    next
      case (Json body)
      obtain status results where b: "body = GoogleBody status results" by (cases body)
      show ?thesis
      proof (cases "ok_with_results status results")
        case found: True
        let ?c = "if choose_result (toLowerCase (GEOCODE_STATE env)) (toLowerCase (GEOCODE_CITY env))
                       None (the results) = None
                  then hd (the results)
                  else the (choose_result (toLowerCase (GEOCODE_STATE env))
                              (toLowerCase (GEOCODE_CITY env)) None (the results))"
        obtain comps addr location where c: "?c = GoogleResult comps addr location"
          by (cases ?c)
        have run: "ok \<Longrightarrow> geocodeLocation k env web today s st =
                (case location of
                   None \<Rightarrow> (Threw TypeError, ?st)
                 | Some loc \<Rightarrow>
                     (Returned (Some \<lparr>lat = Number (lat loc), lng = Number (lng loc),
                                         formatted_address = addr\<rparr>),
                      ?st\<lparr>geocodeCache := (geocodeCache ?st)(cache_key s \<mapsto>
                             \<lparr>lat = Number (lat loc), lng = Number (lng loc),
                                formatted_address = addr\<rparr>)\<rparr>))"
          using miss k u Json b found c
          by (simp add: geocodeLocation_def Let_def)
        show ?thesis
        proof (cases ok)
          case True
          then show ?thesis using assms run [OF True] by (cases location) auto
        next
          case False
          then show ?thesis using assms miss k u
            by (simp add: geocodeLocation_def Let_def)
        qed
      next
        case nores: False
        have fb: "ok \<Longrightarrow> geocodeLocation k env web today s st =
                (case nominatimGeocode web s ?st of
                   (Returned (Some resGeo), st') \<Rightarrow> (Returned (Some resGeo), st')
                 | (other, st') \<Rightarrow>
                     (Threw (GeocodeFailed (if status = [] then ''NO_RESULTS'' else status)), st'))"
          using miss k u Json b nores
          by (simp add: geocodeLocation_def Let_def)
        show ?thesis
        proof (cases ok)
          case True
          obtain res st' where n: "nominatimGeocode web s ?st = (res, st')"
            by (cases "nominatimGeocode web s ?st")
          have "res = Returned (Some r)"
            using assms fb [OF True] n by (auto split: outcome.splits option.splits)
          then have "geocodeCache st' (cache_key s) = Some r"
            using nominatimGeocode_cached [of web s ?st r] n by simp
          then show ?thesis
            using fb [OF True] n \<open>res = Returned (Some r)\<close> by simp
        next
          case False
          then show ?thesis using assms miss k u
            by (simp add: geocodeLocation_def Let_def)
        qed
      qed
    qed
  qed
qed

text \<open>
  C7. When a forward geocode of a text succeeds, a second call with any non-empty text that
  has the same cache key (equal after trimming and lower-casing) returns the same result
  from the cache, whatever the providers would answer now, and leaves the state as it was:
  no request is sent and the usage counter does not move.
\<close>

theorem geocodeLocation_idempotent:
  assumes "fst (geocodeLocation k env web today s1 st) = Returned (Some r)"
    and "s2 \<noteq> []"
    and "toLowerCase (trim s2) = toLowerCase (trim s1)"
  shows "geocodeLocation k' env' web' today' s2 (snd (geocodeLocation k env web today s1 st))
           = (Returned (Some r), snd (geocodeLocation k env web today s1 st)) \<and>
         requests (snd (geocodeLocation k' env' web' today' s2 (snd (geocodeLocation k env web today s1 st))))
           = requests (snd (geocodeLocation k env web today s1 st))"
proof -
  have "geocodeCache (snd (geocodeLocation k env web today s1 st)) (cache_key s2) = Some r"
    using geocodeLocation_cached [OF assms(1)] assms(3) by (simp add: cache_key_def)
  then show ?thesis
    using assms(2) by (simp add: geocodeLocation_def Let_def)
qed


lemma same_key_example: "toLowerCase (trim ''A'') = toLowerCase (trim '' a'')"
  by code_simp

theorem geocodeLocation_idempotent_witness:
  "fst (geocodeLocation None no_preferences unreachable ''2024-01-02'' ''A''
          (snd (geocodeLocation None no_preferences one_place ''2024-01-01'' '' a'' (fresh_state usage0))))
     = Returned (Some \<lparr>lat = Number (33 / 2), lng = Number (403 / 5), formatted_address = ''Vijayawada''\<rparr>) \<and>
   requests (snd (geocodeLocation None no_preferences unreachable ''2024-01-02'' ''A''
          (snd (geocodeLocation None no_preferences one_place ''2024-01-01'' '' a'' (fresh_state usage0)))))
     = [NominatimSearch '' a'']"
proof -
  let ?r = "\<lparr>lat = Number (33 / 2), lng = Number (403 / 5), formatted_address = ''Vijayawada''\<rparr>"
  have first: "fst (geocodeLocation None no_preferences one_place ''2024-01-01'' '' a'' (fresh_state usage0))
                 = Returned (Some ?r)"
    by (simp add: geocodeLocation_def nominatimGeocode_def one_place_def unreachable_def
        fresh_state_def Let_def)
  have sent: "requests (snd (geocodeLocation None no_preferences one_place ''2024-01-01'' '' a''
                 (fresh_state usage0))) = [NominatimSearch '' a'']"
    by (simp add: geocodeLocation_def nominatimGeocode_def one_place_def unreachable_def
        fresh_state_def Let_def)
  have ne: "''A'' \<noteq> []" by simp
  show ?thesis
    using geocodeLocation_idempotent [OF first ne same_key_example,
        of None no_preferences unreachable "''2024-01-02''"] sent
    by simp
qed


subsection \<open>The daily budget and the fallbacks\<close>

lemma nominatimReverse_unnamed:
  assumes "\<not> named (nominatim_reverse web la lo)"
  shows "\<forall>a. fst (nominatimReverse web la lo st) \<noteq> Returned (Some a)"
  using assms
  by (auto simp: nominatimReverse_def named_def Let_def split: http.splits option.splits)

lemma nominatim_or_raw_unnamed:
  assumes "\<not> named (nominatim_reverse web la lo)"
  shows "fst (nominatim_or_raw web toString la lo st)
           = Returned \<lparr>lat = Number la, lng = Number lo, formatted_address = synthesized toString la lo\<rparr>"
proof -
  obtain res st' where n: "nominatimReverse web la lo st = (res, st')"
    by (cases "nominatimReverse web la lo st")
  then have "\<forall>a. res \<noteq> Returned (Some a)"
    using nominatimReverse_unnamed [OF assms, of st] by simp
  then show ?thesis
    using n by (auto simp: nominatim_or_raw_def split: outcome.splits option.splits)
qed

text \<open>
  C6, as the code has it. When the usage governor denies the call, \<open>getRoutePath\<close> takes
  its fallback, the straight line through the stops, and so does the matcher's
  \<open>checkRouteStops\<close> for a route that is not cached. The geocoding functions do not fall
  back: \<open>geocodeLocation\<close> and \<open>reverseGeocode\<close> on a cache miss, and \<open>geocodeLatLng\<close>
  always, throw \<open>'Google Maps daily usage limit exceeded'\<close> to their caller, and send
  no request.
\<close>

theorem quota_denied:
  assumes "\<not> fst (checkAndIncrementGoogleUsage today (googleUsage st))"
    and "GOOGLE_MAPS_KEY = Some k"
  shows "fst (getRoutePath GOOGLE_MAPS_KEY directions today origin destination waypoints (googleUsage st))
           = straight_line origin waypoints destination \<and>
         (2 \<le> length stopsArr \<longrightarrow>
            routePath (fst (checkRouteStops getDistance GOOGLE_MAPS_KEY directions today None userLocation
                              radiusMeters stopsArr routeType (googleUsage st)))
              = map point_of stopsArr) \<and>
         (locationName \<noteq> [] \<and> geocodeCache st (cache_key locationName) = None \<longrightarrow>
            fst (geocodeLocation GOOGLE_MAPS_KEY env web today locationName st) = Threw DailyLimitExceeded \<and>
            requests (snd (geocodeLocation GOOGLE_MAPS_KEY env web today locationName st)) = requests st) \<and>
         (reverseGeocodeCache st (toFixed6 la, toFixed6 lo) = None \<longrightarrow>
            fst (reverseGeocode GOOGLE_MAPS_KEY web today la lo st) = Threw DailyLimitExceeded \<and>
            requests (snd (reverseGeocode GOOGLE_MAPS_KEY web today la lo st)) = requests st) \<and>
         fst (geocodeLatLng GOOGLE_MAPS_KEY web toString today (Number la) (Number lo) st)
           = Threw DailyLimitExceeded \<and>
         requests (snd (geocodeLatLng GOOGLE_MAPS_KEY web toString today (Number la) (Number lo) st))
           = requests st"
proof -
  obtain usage where u: "checkAndIncrementGoogleUsage today (googleUsage st) = (False, usage)"
    using assms(1) by (cases "checkAndIncrementGoogleUsage today (googleUsage st)") auto
  have path: "fst (getRoutePath GOOGLE_MAPS_KEY directions today origin' destination' waypoints' (googleUsage st))
           = straight_line origin' waypoints' destination'" for origin' destination' waypoints'
    using assms(1) by (intro getRoutePath_fallback) simp
  have check: "routePath (fst (checkRouteStops getDistance GOOGLE_MAPS_KEY directions today None userLocation
                              radiusMeters stopsArr routeType (googleUsage st)))
              = map point_of stopsArr" if len: "2 \<le> length stopsArr"
  proof -
    have ne: "length stopsArr \<noteq> 0" "length stopsArr \<noteq> 1" using len by auto
    have "routePath (fst (checkRouteStops getDistance GOOGLE_MAPS_KEY directions today None userLocation
                              radiusMeters stopsArr routeType (googleUsage st)))
            = fst (getRoutePath GOOGLE_MAPS_KEY directions today (coords (stopsArr ! 0))
                    (coords (stopsArr ! (length stopsArr - 1))) (map coords (butlast (tl stopsArr)))
                    (googleUsage st))"
      unfolding checkRouteStops_def Let_def split_beta using ne by simp
    then show ?thesis by (simp only: path straight_line_stops [OF len])
  qed
  have fwd: "fst (geocodeLocation GOOGLE_MAPS_KEY env web today locationName st) = Threw DailyLimitExceeded \<and>
            requests (snd (geocodeLocation GOOGLE_MAPS_KEY env web today locationName st)) = requests st"
    if "locationName \<noteq> [] \<and> geocodeCache st (cache_key locationName) = None"
    using that u assms(2) by (simp add: geocodeLocation_def Let_def)
  have rev: "fst (reverseGeocode GOOGLE_MAPS_KEY web today la lo st) = Threw DailyLimitExceeded \<and>
            requests (snd (reverseGeocode GOOGLE_MAPS_KEY web today la lo st)) = requests st"
    if "reverseGeocodeCache st (toFixed6 la, toFixed6 lo) = None"
    using that u assms(2) by (simp add: reverseGeocode_def Let_def)
  have ll: "fst (geocodeLatLng GOOGLE_MAPS_KEY web toString today (Number la) (Number lo) st)
           = Threw DailyLimitExceeded \<and>
         requests (snd (geocodeLatLng GOOGLE_MAPS_KEY web toString today (Number la) (Number lo) st))
           = requests st"
    using u assms(2) by (simp add: geocodeLatLng_def Let_def)
  show ?thesis
    using path check fwd rev ll by blast
qed

lemma exhausted_denies: "\<not> fst (checkAndIncrementGoogleUsage ''2024-01-01'' (googleUsage (fresh_state exhausted)))"
  by (simp add: checkAndIncrementGoogleUsage_def exhausted_def fresh_state_def Let_def)

theorem quota_denied_witness:
  "fst (getRoutePath (Some ''key'') offline ''2024-01-01'' \<lparr>lat = 0, lng = 0\<rparr> \<lparr>lat = 0, lng = 1\<rparr> []
          (googleUsage (fresh_state exhausted)))
     = [\<lparr>lat = Number 0, lng = Number 0\<rparr>, \<lparr>lat = Number 0, lng = Number 1\<rparr>] \<and>
   fst (geocodeLatLng (Some ''key'') one_place decimal ''2024-01-01'' (Number 0) (Number 1)
          (fresh_state exhausted))
     = Threw DailyLimitExceeded"
  using quota_denied [OF exhausted_denies, of "Some ''key''" "''key''" offline "\<lparr>lat = 0, lng = 0\<rparr>"
      "\<lparr>lat = 0, lng = 1\<rparr>" "[]" "[]" grid_distance "\<lparr>lat = 0, lng = 0\<rparr>" 0 MORNING "[]"
      no_preferences one_place 0 1 decimal]
  by (simp add: straight_line_def point_of_def)

text \<open>
  The claim as written fails: with a key configured and the budget used up, a forward
  geocode of a text that is not cached throws the quota error to its caller, although the
  fallback provider would have answered.
\<close>

theorem quota_error_counterexample:
  "fst (geocodeLocation (Some ''key'') no_preferences one_place ''2024-01-01'' ''Station''
          (fresh_state exhausted)) = Threw DailyLimitExceeded \<and>
   fst (geocodeLocation None no_preferences one_place ''2024-01-01'' ''Station''
          (fresh_state exhausted))
     = Returned (Some \<lparr>lat = Number (33 / 2), lng = Number (403 / 5), formatted_address = ''Vijayawada''\<rparr>)"
  by (simp add: geocodeLocation_def nominatimGeocode_def checkAndIncrementGoogleUsage_def
      one_place_def unreachable_def exhausted_def fresh_state_def Let_def)


subsection \<open>Reverse geocoding\<close>

lemma reverseGeocode_hit:
  assumes "reverseGeocodeCache st (toFixed6 la, toFixed6 lo) = Some a"
  shows "reverseGeocode GOOGLE_MAPS_KEY web today la lo st = (Returned (Some a), st)"
  using assms by (simp add: reverseGeocode_def Let_def)

lemma reverseGeocode_stores:
  assumes "fst (reverseGeocode GOOGLE_MAPS_KEY web today la lo st) = Returned (Some a)"
  shows "reverseGeocodeCache (snd (reverseGeocode GOOGLE_MAPS_KEY web today la lo st))
           (toFixed6 la, toFixed6 lo) = Some a"
proof (cases "reverseGeocodeCache st (toFixed6 la, toFixed6 lo)")
  case (Some cached)
  then show ?thesis using assms by (simp add: reverseGeocode_def Let_def)
next
  case None
  show ?thesis
  proof (cases GOOGLE_MAPS_KEY)
    case nokey: None
    obtain res st' where n: "nominatimReverse web la lo st = (res, st')"
      by (cases "nominatimReverse web la lo st")
    show ?thesis
      using assms None nokey n
      by (auto simp: reverseGeocode_def Let_def split: outcome.splits option.splits)
  next
    case (Some gkey)
    obtain ok usage where u: "checkAndIncrementGoogleUsage today (googleUsage st) = (ok, usage)"
      by (cases "checkAndIncrementGoogleUsage today (googleUsage st)")
    show ?thesis
      using assms None Some u
      by (cases ok)
        (auto simp: reverseGeocode_def Let_def
          split: http.splits google_body.splits option.splits list.splits google_result.splits
            if_splits)
  qed
qed

lemma reverseGeocode_no_key_fails:
  assumes "reverseGeocodeCache st (toFixed6 la, toFixed6 lo) = None"
    and "\<not> named (nominatim_reverse web la lo)"
  shows "fst (reverseGeocode None web today la lo st) = Threw KeyNotConfigured"
proof -
  obtain res st' where n: "nominatimReverse web la lo st = (res, st')"
    by (cases "nominatimReverse web la lo st")
  then have "\<forall>a. res \<noteq> Returned (Some a)"
    using nominatimReverse_unnamed [OF assms(2), of st] by simp
  then show ?thesis
    using assms(1) n by (auto simp: reverseGeocode_def Let_def split: outcome.splits option.splits)
qed

lemma reverseGeocode_google_fails:
  assumes "reverseGeocodeCache st (toFixed6 la, toFixed6 lo) = None"
    and "fst (checkAndIncrementGoogleUsage today (googleUsage st))"
    and "\<not> located (google_reverse web la lo)"
  shows "fst (reverseGeocode (Some k) web today la lo st) = Returned None"
proof -
  obtain usage where u: "checkAndIncrementGoogleUsage today (googleUsage st) = (True, usage)"
    using assms(2) by (cases "checkAndIncrementGoogleUsage today (googleUsage st)") auto
  show ?thesis
    using assms(1,3) u
    by (auto simp: reverseGeocode_def located_def Let_def
        split: http.splits google_body.splits option.splits list.splits google_result.splits)
qed

lemma geocodeLatLng_raw:
  assumes "GOOGLE_MAPS_KEY = None \<or>
           (fst (checkAndIncrementGoogleUsage today (googleUsage st)) \<and>
            \<not> located (google_reverse web la lo) \<and> google_reverse web la lo \<noteq> Unparsable)"
    and "\<not> named (nominatim_reverse web la lo)"
  shows "fst (geocodeLatLng GOOGLE_MAPS_KEY web toString today (Number la) (Number lo) st)
           = Returned \<lparr>lat = Number la, lng = Number lo, formatted_address = synthesized toString la lo\<rparr>"
proof (cases GOOGLE_MAPS_KEY)
  case None
  then show ?thesis
    using nominatim_or_raw_unnamed [OF assms(2)] by (simp add: geocodeLatLng_def)
next
  case (Some gkey)
  then have a: "fst (checkAndIncrementGoogleUsage today (googleUsage st))"
    "\<not> located (google_reverse web la lo)" "google_reverse web la lo \<noteq> Unparsable"
    using assms(1) by auto
  obtain usage where u: "checkAndIncrementGoogleUsage today (googleUsage st) = (True, usage)"
    using a(1) by (cases "checkAndIncrementGoogleUsage today (googleUsage st)") auto
  show ?thesis
    using Some u a(2,3) nominatim_or_raw_unnamed [OF assms(2), of toString]
    by (auto simp: geocodeLatLng_def located_def Let_def
        split: http.splits google_body.splits option.splits list.splits google_result.splits)
qed

text \<open>
  C8, as the code has it. \<open>reverseGeocode\<close> keys its cache by the two coordinates rounded
  to six decimals: a lookup whose rounded coordinates are cached returns the cached address
  and sends nothing, and an address it returns is stored under that key. When every
  provider fails it does not make up an address: without a key it throws
  \<open>'Google Maps API key not configured'\<close>, with a key it returns \<open>null\<close>. The address
  made of the raw coordinates is what \<open>geocodeLatLng\<close>, which has no cache, returns when no
  provider produces an address (the Google request admitted by the daily budget and its
  body parsed, or no key configured).
\<close>

theorem reverse_geocoding_failure:
  "(reverseGeocodeCache st (toFixed6 la, toFixed6 lo) = Some a \<longrightarrow>
      reverseGeocode GOOGLE_MAPS_KEY web today la lo st = (Returned (Some a), st)) \<and>
   (fst (reverseGeocode GOOGLE_MAPS_KEY web today la lo st) = Returned (Some a) \<longrightarrow>
      reverseGeocodeCache (snd (reverseGeocode GOOGLE_MAPS_KEY web today la lo st))
        (toFixed6 la, toFixed6 lo) = Some a) \<and>
   (reverseGeocodeCache st (toFixed6 la, toFixed6 lo) = None \<and>
    \<not> named (nominatim_reverse web la lo) \<longrightarrow>
      fst (reverseGeocode None web today la lo st) = Threw KeyNotConfigured) \<and>
   (reverseGeocodeCache st (toFixed6 la, toFixed6 lo) = None \<and>
    fst (checkAndIncrementGoogleUsage today (googleUsage st)) \<and>
    \<not> located (google_reverse web la lo) \<longrightarrow>
      fst (reverseGeocode (Some k) web today la lo st) = Returned None) \<and>
   ((GOOGLE_MAPS_KEY = None \<or>
     (fst (checkAndIncrementGoogleUsage today (googleUsage st)) \<and>
      \<not> located (google_reverse web la lo) \<and> google_reverse web la lo \<noteq> Unparsable)) \<and>
    \<not> named (nominatim_reverse web la lo) \<longrightarrow>
      fst (geocodeLatLng GOOGLE_MAPS_KEY web toString today (Number la) (Number lo) st)
        = Returned \<lparr>lat = Number la, lng = Number lo,
                     formatted_address = synthesized toString la lo\<rparr>)"
proof (intro conjI impI)
  assume "reverseGeocodeCache st (toFixed6 la, toFixed6 lo) = Some a"
  then show "reverseGeocode GOOGLE_MAPS_KEY web today la lo st = (Returned (Some a), st)"
    by (rule reverseGeocode_hit)
next
  assume "fst (reverseGeocode GOOGLE_MAPS_KEY web today la lo st) = Returned (Some a)"
  then show "reverseGeocodeCache (snd (reverseGeocode GOOGLE_MAPS_KEY web today la lo st))
        (toFixed6 la, toFixed6 lo) = Some a"
    by (rule reverseGeocode_stores)
next
  assume "reverseGeocodeCache st (toFixed6 la, toFixed6 lo) = None \<and>
    \<not> named (nominatim_reverse web la lo)"
  then show "fst (reverseGeocode None web today la lo st) = Threw KeyNotConfigured"
    by (intro reverseGeocode_no_key_fails) simp_all
next
  assume "reverseGeocodeCache st (toFixed6 la, toFixed6 lo) = None \<and>
    fst (checkAndIncrementGoogleUsage today (googleUsage st)) \<and>
    \<not> located (google_reverse web la lo)"
  then show "fst (reverseGeocode (Some k) web today la lo st) = Returned None"
    by (intro reverseGeocode_google_fails) simp_all
next
  assume a: "(GOOGLE_MAPS_KEY = None \<or>
     (fst (checkAndIncrementGoogleUsage today (googleUsage st)) \<and>
      \<not> located (google_reverse web la lo) \<and> google_reverse web la lo \<noteq> Unparsable)) \<and>
    \<not> named (nominatim_reverse web la lo)"
  show "fst (geocodeLatLng GOOGLE_MAPS_KEY web toString today (Number la) (Number lo) st)
        = Returned \<lparr>lat = Number la, lng = Number lo,
                     formatted_address = synthesized toString la lo\<rparr>"
    by (rule geocodeLatLng_raw) (use a in blast)+
qed

lemma toFixed6_example: "toFixed6 (1234561 / 10000000) = toFixed6 (1234564 / 10000000)"
  by (simp add: toFixed6_def)

lemma toFixed6_example2: "toFixed6 (1234561 / 10000000) = Fixed6 False 123456"
  by (simp add: toFixed6_def)

lemma remembered_hit:
  "reverseGeocodeCache remembered (toFixed6 (1234561 / 10000000), toFixed6 1) = Some ''Benz Circle''"
  by (simp add: remembered_def toFixed6_example)

lemma unreachable_unnamed: "\<not> named (nominatim_reverse unreachable 0 1)"
  by (simp add: named_def unreachable_def)

theorem reverse_geocoding_failure_witness:
  "reverseGeocode None unreachable ''2024-01-01'' (1234561 / 10000000) 1 remembered
     = (Returned (Some ''Benz Circle''), remembered) \<and>
   fst (reverseGeocode None unreachable ''2024-01-01'' 0 1 (fresh_state usage0)) = Threw KeyNotConfigured \<and>
   fst (geocodeLatLng None unreachable decimal ''2024-01-01'' (Number 0) (Number 1) (fresh_state usage0))
     = Returned \<lparr>lat = Number 0, lng = Number 1, formatted_address = ''0, 1''\<rparr>"
  using reverse_geocoding_failure [of "fresh_state usage0" 0 1 "[]" None unreachable "''2024-01-01''"
      "[]" decimal] unreachable_unnamed
    reverse_geocoding_failure [of remembered "1234561 / 10000000" 1 "''Benz Circle''" None unreachable
      "''2024-01-01''" "[]" decimal] remembered_hit
  by (simp add: fresh_state_def synthesized_def decimal_def)

text \<open>
  The claim as written fails for \<open>reverseGeocode\<close>: with no provider answering it throws
  (no key configured) or returns \<open>null\<close> (key configured), and no address is synthesized.
\<close>

theorem reverseGeocode_counterexample:
  "fst (reverseGeocode None unreachable ''2024-01-01'' (33 / 2) (403 / 5) (fresh_state usage0))
     = Threw KeyNotConfigured \<and>
   fst (reverseGeocode (Some ''key'') unreachable ''2024-01-01'' (33 / 2) (403 / 5) (fresh_state usage0))
     = Returned None"
  by (simp add: reverseGeocode_def nominatimReverse_def checkAndIncrementGoogleUsage_def
      unreachable_def usage0_def fresh_state_def Let_def)

subsection \<open>The two route caches\<close>





end
